theory Spec2Isabelle
  imports Main "HOL-Library.Sublist"
begin

section \<open>The explorer routes of run/api/explorers.js\<close>

text \<open>
  The module is a set of asynchronous route handlers. Each handler validates its request,
  calls its collaborators (the persistence layer \<open>db\<close>, the billing client \<open>stripe\<close>, the RPC
  connector, the process supervisor, the job queue) and answers 200 with a body or 400 with
  the message of the error that was thrown.

  The collaborators are required from other modules (\<open>../lib/firebase\<close>, \<open>stripe\<close>,
  \<open>../lib/rpc\<close>, \<open>../lib/pm2\<close>, ...), so a handler is modelled as a function of an environment
  that holds, for every collaborator, the answer it gives to each call: a value, or the
  rejection of the promise. A handler returns its response together with the list of the
  collaborator calls it made, in order: what a handler wrote or asked for is read off that
  list.
\<close>

subsection \<open>Data\<close>

text \<open>
  Only the fields the handlers read are kept. A string field that the handlers test for
  truthiness only (\<open>if (!data.name)\<close>) is a \<open>string\<close> whose empty value stands for both the
  missing and the empty JavaScript value; likewise a numeric id whose value 0 stands for the
  missing one.
\<close>

record user =
  user_id :: nat
  stripeCustomerId :: string
  canTrial :: bool
  canUseDemoPlan :: bool
  cryptoPaymentEnabled :: bool
  defaultDataRetentionLimit :: nat

record capabilities =
  nativeToken :: bool
  totalSupply_cap :: bool
  branding :: bool
  customDomain :: bool

record plan =
  plan_id :: nat
  plan_slug :: string
  stripePriceId :: string
  public :: bool
  capabilities :: capabilities

record subscription =
  stripeId :: string
  isPendingCancelation :: bool
  stripePlan :: plan

record rpcHealthCheck =
  isReachable :: bool

record workspace =
  workspace_id :: nat
  workspace_name :: string
  rpcServer :: string
  workspace_explorer :: "nat option"
  rpcHealthCheck :: "rpcHealthCheck option"

record explorer =
  explorer_id :: nat
  slug :: string
  workspace :: workspace
  stripeSubscription :: "subscription option"

text \<open>The public parameters of an explorer, as \<open>GET /search\<close> returns them.\<close>

datatype themes = Themes string | Default_themes

record explorerParams =
  params_stripeSubscription :: "subscription option"
  token :: string
  totalSupply :: "string option"
  themes :: themes

text \<open>The objects of the billing provider.\<close>

record stripe_item =
  item_id :: string

record stripe_subscription =
  subscription_id :: string
  subscription_customer :: string
  subscription_items :: "stripe_item list"

record stripe_customer =
  customer_id :: string
  default_source :: string

record create_params =
  customer :: string
  price :: string
  trial_period_days :: "nat option"
  missing_payment_method :: "string option"
  collection_method :: "string option"
  days_until_due :: "nat option"
  metadata_explorerId :: nat

record update_params =
  cancel_at_period_end :: bool
  proration_behavior :: "string option"
  item_price :: "(string \<times> string) option"

record workspaceData =
  wd_name :: string
  wd_networkId :: nat
  wd_rpcServer :: string
  wd_tracing :: string
  wd_dataRetentionLimit :: nat

record pm2_process =
  status :: string

record job =
  job_explorerId :: nat
  job_explorerSlug :: string

text \<open>
  The value of a parameter of the query string, as Express parses it: a string, an array
  (\<open>a[]=1&a[]=2\<close>) or an object (\<open>user[id]=2\<close>).
\<close>

datatype qs = Qs_string string | Qs_array "qs list" | Qs_object "(string \<times> qs) list"

text \<open>
  The request, as Express hands it to a handler after the middlewares: \<open>req.params.id\<close>,
  the fields of \<open>req.body.data\<close> (\<open>data.user\<close> and \<open>data.uid\<close> are set by the authentication
  middleware) and those of \<open>req.query\<close>; \<open>query_user\<close> is \<open>req.query.user\<close>, \<open>None\<close> when the
  query string has no such parameter.
\<close>

record request =
  params_id :: string
  data_uid :: string
  data_user :: user
  data_stripePlanSlug :: string
  data_newStripePlanSlug :: string
  data_workspaceId :: nat
  data_rpcServer :: string
  data_name :: string
  data_tracing :: string
  data_plan :: string
  data_domain :: string
  data_workspace :: string
  query_startSubscription :: string
  query_domain :: string
  query_user :: "qs option"

subsection \<open>Errors\<close>

text \<open>
  One constructor for each message the handlers throw; the comment gives the message.
  \<open>TypeError\<close> is the error JavaScript raises when a property of \<open>null\<close> or \<open>undefined\<close> is
  read; \<open>Rejected m\<close> is a collaborator's own rejection, with its message.
\<close>

datatype error =
    Missing_parameter \<comment> \<open>Missing parameter\<close>
  | Missing_parameters \<comment> \<open>Missing parameters\<close>
  | Missing_parameters_dot \<comment> \<open>Missing parameters.\<close>
  | Could_not_find_user \<comment> \<open>Could not find user.\<close>
  | Already_used_trial \<comment> \<open>You've already used your trial.\<close>
  | Could_not_find_explorer \<comment> \<open>Could not find explorer.\<close>
  | Could_not_find_plan \<comment> \<open>Could not find plan.\<close>
  | Error_starting_trial \<comment> \<open>Error while starting trial. Please try again.\<close>
  | Couldnt_find_explorer \<comment> \<open>Couldn't find explorer.\<close>
  | No_active_subscription \<comment> \<open>No active subscription for this explorer.\<close>
  | Transaction_quota_reached \<comment> \<open>Transaction quota reached. Upgrade your plan to resume sync.\<close>
  | Rpc_not_reachable \<comment> \<open>This explorer's RPC is not reachable. Please update it in order to start syncing.\<close>
  | Cant_find_explorer \<comment> \<open>Can't find explorer.\<close>
  | Revert_plan_cancelation \<comment> \<open>Revert plan cancelation before choosing a new plan.\<close>
  | Cant_find_plan \<comment> \<open>Can't find plan.\<close>
  | Crypto_payment_not_available \<comment> \<open>Crypto payment is not available for your account. ...\<close>
  | Only_one_app_domain \<comment> \<open>You can only have one <app domain> domain. ...\<close>
  | Invalid_workspace \<comment> \<open>Invalid workspace.\<close>
  | Workspace_already_has_explorer \<comment> \<open>This workspace already has an explorer.\<close>
  | Cant_query_rpc \<comment> \<open>Our servers can't query this rpc, please use a rpc that is reachable from the internet.\<close>
  | Could_not_create_explorer \<comment> \<open>Could not create explorer.\<close>
  | Cant_setup_explorer \<comment> \<open>Can't setup explorer. Make sure you've run npx sequelize-cli db:seed:all\<close>
  | Missing_plan_parameter \<comment> \<open>Missing plan parameter.\<close>
  | No_payment_method \<comment> \<open>There doesn't seem to be a payment method associated to your account. ...\<close>
  | Explorer_not_active \<comment> \<open>This explorer is not active.\<close>
  | TypeError
  | Rejected string

subsection \<open>Collaborator calls\<close>

text \<open>
  The user id that \<open>db.getUserExplorers\<close> is given: the id of the authenticated user, a value
  that came with the query string, or \<open>undefined\<close>.
\<close>

datatype user_arg = User_id nat | Query_id qs | Undefined

datatype call =
    Db_getUser string
  | Db_getExplorerById nat string bool
  | Db_getStripePlan string
  | Db_createExplorerSubscription nat nat nat "(stripe_subscription \<times> stripe_customer) option"
  | Db_disableUserTrial nat
  | Db_stopExplorerSync nat
  | Db_startExplorerSync nat
  | Db_revertExplorerSubscriptionCancelation nat nat
  | Db_updateExplorerSubscription nat nat nat "stripe_subscription option"
  | Db_cancelExplorerSubscription nat nat
  | Db_deleteExplorer nat string
  | Db_getExplorerPlans
  | Db_createExplorerDomain nat string
  | Db_updateExplorerBranding nat request
  | Db_getWorkspaceByName string string
  | Db_updateExplorerWorkspace nat nat
  | Db_updateExplorerSettings nat request
  | Db_getWorkspaceById nat
  | Db_createExplorerFromWorkspace nat nat
  | Db_createExplorerWithWorkspace nat workspaceData
  | Db_getPublicExplorerParamsBySlug string
  | Db_getPublicExplorerParamsByDomain string
  | Db_getUserExplorers user_arg
  | Explorer_findAll
  | Explorer_hasReachedTransactionQuota nat
  | Stripe_subscriptions_create create_params
  | Stripe_subscriptions_retrieve string
  | Stripe_subscriptions_update string update_params
  | Stripe_customers_retrieve string
  | Provider_fetchNetworkId string
  | Pm2_find string
  | Queue_bulkEnqueue string "job list"

text \<open>
  The answers of the collaborators. \<open>Inl e\<close> is a rejected promise (for the RPC probe, which
  runs under \<open>withTimeout\<close>, also one that did not settle in time); \<open>Inr None\<close> is a \<open>null\<close>
  result. A handler calls a collaborator at most once with the same arguments, so one answer
  for each call is enough. The list of extra fields that \<open>db.getUser\<close> takes is left out; the
  third argument of \<open>db.getExplorerById\<close>, which one handler passes, is \<open>False\<close> where the
  source omits it.
\<close>

record db =
  getUser :: "string \<Rightarrow> error + user option"
  getExplorerById :: "nat \<Rightarrow> string \<Rightarrow> bool \<Rightarrow> error + explorer option"
  getStripePlan :: "string \<Rightarrow> error + plan option"
  createExplorerSubscription ::
    "nat \<Rightarrow> nat \<Rightarrow> nat \<Rightarrow> (stripe_subscription \<times> stripe_customer) option \<Rightarrow> error + unit"
  disableUserTrial :: "nat \<Rightarrow> error + unit"
  stopExplorerSync :: "nat \<Rightarrow> error + unit"
  startExplorerSync :: "nat \<Rightarrow> error + unit"
  revertExplorerSubscriptionCancelation :: "nat \<Rightarrow> nat \<Rightarrow> error + unit"
  updateExplorerSubscription :: "nat \<Rightarrow> nat \<Rightarrow> nat \<Rightarrow> stripe_subscription option \<Rightarrow> error + unit"
  cancelExplorerSubscription :: "nat \<Rightarrow> nat \<Rightarrow> error + unit"
  deleteExplorer :: "nat \<Rightarrow> string \<Rightarrow> error + unit"
  getExplorerPlans :: "error + plan list"
  createExplorerDomain :: "nat \<Rightarrow> string \<Rightarrow> error + unit"
  updateExplorerBranding :: "nat \<Rightarrow> request \<Rightarrow> error + unit"
  getWorkspaceByName :: "string \<Rightarrow> string \<Rightarrow> error + workspace option"
  updateExplorerWorkspace :: "nat \<Rightarrow> nat \<Rightarrow> error + unit"
  updateExplorerSettings :: "nat \<Rightarrow> request \<Rightarrow> error + unit"
  getWorkspaceById :: "nat \<Rightarrow> error + workspace option"
  createExplorerFromWorkspace :: "nat \<Rightarrow> nat \<Rightarrow> error + explorer option"
  createExplorerWithWorkspace :: "nat \<Rightarrow> workspaceData \<Rightarrow> error + explorer option"
  getPublicExplorerParamsBySlug :: "string \<Rightarrow> error + explorerParams option"
  getPublicExplorerParamsByDomain :: "string \<Rightarrow> error + explorerParams option"
  getUserExplorers :: "user_arg \<Rightarrow> error + explorer list"

record stripe =
  subscriptions_create :: "create_params \<Rightarrow> error + stripe_subscription option"
  subscriptions_retrieve :: "string \<Rightarrow> error + stripe_subscription"
  subscriptions_update :: "string \<Rightarrow> update_params \<Rightarrow> error + unit"
  customers_retrieve :: "string \<Rightarrow> error + stripe_customer"

record env =
  db :: db
  stripe :: stripe
  isStripeEnabled :: bool
  getAppDomain :: string
  getDefaultPlanSlug :: string
  getDefaultExplorerTrialDays :: nat
  findAll :: "error + explorer list"
  hasReachedTransactionQuota :: "explorer \<Rightarrow> error + bool"
  fetchNetworkId :: "string \<Rightarrow> error + nat option"
  pm2_find :: "string \<Rightarrow> error + pm2_process option"
  bulkEnqueue :: "string \<Rightarrow> job list \<Rightarrow> error + unit"

subsection \<open>Awaiting, throwing and catching\<close>

type_synonym 'a io = "(error + 'a) \<times> call list"

definition ok :: "'a \<Rightarrow> 'a io" where
  "ok x = (Inr x, [])"

definition throw :: "error \<Rightarrow> 'a io" where
  "throw e = (Inl e, [])"

definition invoke :: "call \<Rightarrow> error + 'a \<Rightarrow> 'a io" where
  "invoke c r = (r, [c])"

text \<open>\<open>const x = await m; k x\<close>: a rejection of \<open>m\<close> is thrown, and the rest is skipped.\<close>

definition await :: "'a io \<Rightarrow> ('a \<Rightarrow> 'b io) \<Rightarrow> 'b io" where
  "await m k =
     (case m of
        (Inl e, t) \<Rightarrow> (Inl e, t)
      | (Inr x, t) \<Rightarrow> (case k x of (r, t') \<Rightarrow> (r, t @ t')))"

text \<open>\<open>try { m } catch(error) { throw new Error(e) }\<close>\<close>

definition catch_throw :: "error \<Rightarrow> 'a io \<Rightarrow> 'a io" where
  "catch_throw e m = (case m of (Inl _, t) \<Rightarrow> (Inl e, t) | (Inr x, t) \<Rightarrow> (Inr x, t))"

text \<open>\<open>try { x = m } catch(error) { x = null }\<close>\<close>

definition catch_null :: "'a option io \<Rightarrow> 'a option io" where
  "catch_null m = (case m of (Inl _, t) \<Rightarrow> (Inr None, t) | (Inr x, t) \<Rightarrow> (Inr x, t))"

text \<open>The truthiness of a network id: \<open>null\<close> and 0 are falsy.\<close>

definition truthy :: "nat option \<Rightarrow> bool" where
  "truthy n = (case n of None \<Rightarrow> False | Some i \<Rightarrow> i \<noteq> 0)"

text \<open>
  \<open>s.split(sep)[0]\<close> for a non-empty separator: the part of \<open>s\<close> before the first occurrence
  of \<open>sep\<close>, and all of \<open>s\<close> when there is none.
\<close>

fun split_head :: "string \<Rightarrow> string \<Rightarrow> string" where
  "split_head sep [] = []"
| "split_head sep (c # cs) = (if prefix sep (c # cs) then [] else c # split_head sep cs)"

subsection \<open>The collaborators, as the handlers call them\<close>

definition db_getUser :: "env \<Rightarrow> string \<Rightarrow> user option io" where
  "db_getUser env uid = invoke (Db_getUser uid) (getUser (db env) uid)"

definition db_getExplorerById :: "env \<Rightarrow> nat \<Rightarrow> string \<Rightarrow> bool \<Rightarrow> explorer option io" where
  "db_getExplorerById env userId i withDemo =
     invoke (Db_getExplorerById userId i withDemo) (getExplorerById (db env) userId i withDemo)"

definition db_getStripePlan :: "env \<Rightarrow> string \<Rightarrow> plan option io" where
  "db_getStripePlan env s = invoke (Db_getStripePlan s) (getStripePlan (db env) s)"

definition db_createExplorerSubscription ::
  "env \<Rightarrow> nat \<Rightarrow> nat \<Rightarrow> nat \<Rightarrow> (stripe_subscription \<times> stripe_customer) option \<Rightarrow> unit io" where
  "db_createExplorerSubscription env userId explorerId planId sub =
     invoke (Db_createExplorerSubscription userId explorerId planId sub)
       (createExplorerSubscription (db env) userId explorerId planId sub)"

definition db_disableUserTrial :: "env \<Rightarrow> nat \<Rightarrow> unit io" where
  "db_disableUserTrial env userId = invoke (Db_disableUserTrial userId) (disableUserTrial (db env) userId)"

definition db_stopExplorerSync :: "env \<Rightarrow> nat \<Rightarrow> unit io" where
  "db_stopExplorerSync env explorerId =
     invoke (Db_stopExplorerSync explorerId) (stopExplorerSync (db env) explorerId)"

definition db_startExplorerSync :: "env \<Rightarrow> nat \<Rightarrow> unit io" where
  "db_startExplorerSync env explorerId =
     invoke (Db_startExplorerSync explorerId) (startExplorerSync (db env) explorerId)"

definition db_revertExplorerSubscriptionCancelation :: "env \<Rightarrow> nat \<Rightarrow> nat \<Rightarrow> unit io" where
  "db_revertExplorerSubscriptionCancelation env userId explorerId =
     invoke (Db_revertExplorerSubscriptionCancelation userId explorerId)
       (revertExplorerSubscriptionCancelation (db env) userId explorerId)"

definition db_updateExplorerSubscription ::
  "env \<Rightarrow> nat \<Rightarrow> nat \<Rightarrow> nat \<Rightarrow> stripe_subscription option \<Rightarrow> unit io" where
  "db_updateExplorerSubscription env userId explorerId planId sub =
     invoke (Db_updateExplorerSubscription userId explorerId planId sub)
       (updateExplorerSubscription (db env) userId explorerId planId sub)"

definition db_cancelExplorerSubscription :: "env \<Rightarrow> nat \<Rightarrow> nat \<Rightarrow> unit io" where
  "db_cancelExplorerSubscription env userId explorerId =
     invoke (Db_cancelExplorerSubscription userId explorerId)
       (cancelExplorerSubscription (db env) userId explorerId)"

definition db_deleteExplorer :: "env \<Rightarrow> nat \<Rightarrow> string \<Rightarrow> unit io" where
  "db_deleteExplorer env userId i = invoke (Db_deleteExplorer userId i) (deleteExplorer (db env) userId i)"

definition db_getExplorerPlans :: "env \<Rightarrow> plan list io" where
  "db_getExplorerPlans env = invoke Db_getExplorerPlans (getExplorerPlans (db env))"

definition db_createExplorerDomain :: "env \<Rightarrow> nat \<Rightarrow> string \<Rightarrow> unit io" where
  "db_createExplorerDomain env explorerId d =
     invoke (Db_createExplorerDomain explorerId d) (createExplorerDomain (db env) explorerId d)"

definition db_updateExplorerBranding :: "env \<Rightarrow> nat \<Rightarrow> request \<Rightarrow> unit io" where
  "db_updateExplorerBranding env explorerId d =
     invoke (Db_updateExplorerBranding explorerId d) (updateExplorerBranding (db env) explorerId d)"

definition db_getWorkspaceByName :: "env \<Rightarrow> string \<Rightarrow> string \<Rightarrow> workspace option io" where
  "db_getWorkspaceByName env uid n =
     invoke (Db_getWorkspaceByName uid n) (getWorkspaceByName (db env) uid n)"

definition db_updateExplorerWorkspace :: "env \<Rightarrow> nat \<Rightarrow> nat \<Rightarrow> unit io" where
  "db_updateExplorerWorkspace env explorerId workspaceId =
     invoke (Db_updateExplorerWorkspace explorerId workspaceId)
       (updateExplorerWorkspace (db env) explorerId workspaceId)"

definition db_updateExplorerSettings :: "env \<Rightarrow> nat \<Rightarrow> request \<Rightarrow> unit io" where
  "db_updateExplorerSettings env explorerId d =
     invoke (Db_updateExplorerSettings explorerId d) (updateExplorerSettings (db env) explorerId d)"

definition db_getWorkspaceById :: "env \<Rightarrow> nat \<Rightarrow> workspace option io" where
  "db_getWorkspaceById env i = invoke (Db_getWorkspaceById i) (getWorkspaceById (db env) i)"

definition db_createExplorerFromWorkspace :: "env \<Rightarrow> nat \<Rightarrow> nat \<Rightarrow> explorer option io" where
  "db_createExplorerFromWorkspace env userId workspaceId =
     invoke (Db_createExplorerFromWorkspace userId workspaceId)
       (createExplorerFromWorkspace (db env) userId workspaceId)"

definition db_createExplorerWithWorkspace :: "env \<Rightarrow> nat \<Rightarrow> workspaceData \<Rightarrow> explorer option io" where
  "db_createExplorerWithWorkspace env userId wd =
     invoke (Db_createExplorerWithWorkspace userId wd) (createExplorerWithWorkspace (db env) userId wd)"

definition db_getPublicExplorerParamsBySlug :: "env \<Rightarrow> string \<Rightarrow> explorerParams option io" where
  "db_getPublicExplorerParamsBySlug env s =
     invoke (Db_getPublicExplorerParamsBySlug s) (getPublicExplorerParamsBySlug (db env) s)"

definition db_getPublicExplorerParamsByDomain :: "env \<Rightarrow> string \<Rightarrow> explorerParams option io" where
  "db_getPublicExplorerParamsByDomain env d =
     invoke (Db_getPublicExplorerParamsByDomain d) (getPublicExplorerParamsByDomain (db env) d)"

definition db_getUserExplorers :: "env \<Rightarrow> user_arg \<Rightarrow> explorer list io" where
  "db_getUserExplorers env userId = invoke (Db_getUserExplorers userId) (getUserExplorers (db env) userId)"

definition explorer_findAll :: "env \<Rightarrow> explorer list io" where
  "explorer_findAll env = invoke Explorer_findAll (findAll env)"

definition explorer_hasReachedTransactionQuota :: "env \<Rightarrow> explorer \<Rightarrow> bool io" where
  "explorer_hasReachedTransactionQuota env e =
     invoke (Explorer_hasReachedTransactionQuota (explorer_id e)) (hasReachedTransactionQuota env e)"

definition stripe_subscriptions_create :: "env \<Rightarrow> create_params \<Rightarrow> stripe_subscription option io" where
  "stripe_subscriptions_create env p =
     invoke (Stripe_subscriptions_create p) (subscriptions_create (stripe env) p)"

definition stripe_subscriptions_retrieve :: "env \<Rightarrow> string \<Rightarrow> stripe_subscription io" where
  "stripe_subscriptions_retrieve env i =
     invoke (Stripe_subscriptions_retrieve i) (subscriptions_retrieve (stripe env) i)"

definition stripe_subscriptions_update :: "env \<Rightarrow> string \<Rightarrow> update_params \<Rightarrow> unit io" where
  "stripe_subscriptions_update env i p =
     invoke (Stripe_subscriptions_update i p) (subscriptions_update (stripe env) i p)"

definition stripe_customers_retrieve :: "env \<Rightarrow> string \<Rightarrow> stripe_customer io" where
  "stripe_customers_retrieve env i =
     invoke (Stripe_customers_retrieve i) (customers_retrieve (stripe env) i)"

text \<open>\<open>withTimeout(new ProviderConnector(rpc).fetchNetworkId())\<close>\<close>

definition provider_fetchNetworkId :: "env \<Rightarrow> string \<Rightarrow> nat option io" where
  "provider_fetchNetworkId env rpc = invoke (Provider_fetchNetworkId rpc) (fetchNetworkId env rpc)"

definition pm2_find_process :: "env \<Rightarrow> string \<Rightarrow> pm2_process option io" where
  "pm2_find_process env s = invoke (Pm2_find s) (pm2_find env s)"

definition queue_bulkEnqueue :: "env \<Rightarrow> string \<Rightarrow> job list \<Rightarrow> unit io" where
  "queue_bulkEnqueue env n jobs = invoke (Queue_bulkEnqueue n jobs) (bulkEnqueue env n jobs)"

subsection \<open>The handlers\<close>

text \<open>
  Each handler is the body of its \<open>try\<close> block; the \<open>catch\<close> of every handler answers
  \<open>res.status(400).send(error.message)\<close>, so \<open>Inl e\<close> is the response 400 with the message of
  \<open>e\<close>, and \<open>Inr b\<close> the response 200 with the body \<open>b\<close>.
\<close>

text \<open>\<open>router.post('/:id/startTrial', authMiddleware, ...)\<close>\<close>

definition post_startTrial :: "env \<Rightarrow> request \<Rightarrow> unit io" where
  "post_startTrial env req =
     (if data_stripePlanSlug req = [] then throw Missing_parameter
      else await (db_getUser env (data_uid req)) (\<lambda>user.
        case user of
          None \<Rightarrow> throw Could_not_find_user
        | Some user \<Rightarrow>
            if \<not> canTrial user then throw Already_used_trial
            else await (db_getExplorerById env (user_id user) (params_id req) False) (\<lambda>explorer.
              case explorer of
                None \<Rightarrow> throw Could_not_find_explorer
              | Some explorer \<Rightarrow>
                  await (db_getStripePlan env (data_stripePlanSlug req)) (\<lambda>plan.
                    case plan of
                      None \<Rightarrow> throw Could_not_find_plan
                    | Some plan \<Rightarrow>
                        await (stripe_subscriptions_create env
                            \<lparr>customer = stripeCustomerId user,
                             price = stripePriceId plan,
                             trial_period_days = Some (getDefaultExplorerTrialDays env),
                             missing_payment_method = Some ''cancel'',
                             collection_method = None,
                             days_until_due = None,
                             metadata_explorerId = explorer_id explorer\<rparr>) (\<lambda>subscription.
                          case subscription of
                            None \<Rightarrow> throw Error_starting_trial
                          | Some subscription \<Rightarrow>
                              await (stripe_customers_retrieve env (subscription_customer subscription))
                                (\<lambda>customer.
                                  await (db_createExplorerSubscription env (user_id user)
                                      (explorer_id explorer) (plan_id plan) (Some (subscription, customer)))
                                    (\<lambda>_. await (db_disableUserTrial env (user_id user))
                                      (\<lambda>_. ok ()))))))))"

text \<open>\<open>router.post('/syncExplorers', secretMiddleware, ...)\<close>\<close>

definition post_syncExplorers :: "env \<Rightarrow> request \<Rightarrow> unit io" where
  "post_syncExplorers env req =
     await (explorer_findAll env) (\<lambda>explorers.
       await (queue_bulkEnqueue env ''updateExplorerSyncingProcess''
           (map (\<lambda>explorer. \<lparr>job_explorerId = explorer_id explorer, job_explorerSlug = slug explorer\<rparr>)
              explorers))
         (\<lambda>_. ok ()))"

text \<open>\<open>router.put('/:id/stopSync', [authMiddleware], ...)\<close>\<close>

definition put_stopSync :: "env \<Rightarrow> request \<Rightarrow> unit io" where
  "put_stopSync env req =
     (if params_id req = [] then throw Missing_parameters
      else await (db_getExplorerById env (user_id (data_user req)) (params_id req) False) (\<lambda>explorer.
        case explorer of
          None \<Rightarrow> throw Couldnt_find_explorer
        | Some explorer \<Rightarrow> await (db_stopExplorerSync env (explorer_id explorer)) (\<lambda>_. ok ())))"

text \<open>\<open>router.put('/:id/startSync', [authMiddleware], ...)\<close>\<close>

definition put_startSync :: "env \<Rightarrow> request \<Rightarrow> unit io" where
  "put_startSync env req =
     (if params_id req = [] then throw Missing_parameters
      else await (db_getExplorerById env (user_id (data_user req)) (params_id req) False) (\<lambda>explorer.
        case explorer of
          None \<Rightarrow> throw Couldnt_find_explorer
        | Some explorer \<Rightarrow>
            if stripeSubscription explorer = None then throw No_active_subscription
            else await (explorer_hasReachedTransactionQuota env explorer) (\<lambda>reached.
              if reached then throw Transaction_quota_reached
              else await (catch_throw Rpc_not_reachable
                    (provider_fetchNetworkId env (rpcServer (workspace explorer))))
                (\<lambda>_. await (db_startExplorerSync env (explorer_id explorer)) (\<lambda>_. ok ())))))"

text \<open>\<open>router.get('/:id/syncStatus', [authMiddleware], ...)\<close>\<close>

definition get_syncStatus :: "env \<Rightarrow> request \<Rightarrow> string io" where
  "get_syncStatus env req =
     (if params_id req = [] then throw Missing_parameters
      else await (db_getExplorerById env (user_id (data_user req)) (params_id req) False) (\<lambda>explorer.
        case explorer of
          None \<Rightarrow> throw Cant_find_explorer
        | Some explorer \<Rightarrow>
            if (case rpcHealthCheck (workspace explorer) of
                  None \<Rightarrow> False
                | Some check \<Rightarrow> \<not> isReachable check)
            then ok ''unreachable''
            else await (explorer_hasReachedTransactionQuota env explorer) (\<lambda>reached.
              if reached then ok ''transactionQuotaReached''
              else await (pm2_find_process env (slug explorer)) (\<lambda>pm2Process.
                ok (case pm2Process of None \<Rightarrow> ''stopped'' | Some p \<Rightarrow> status p)))))"

text \<open>\<open>router.put('/:id/subscription', [authMiddleware, stripeMiddleware], ...)\<close>\<close>

definition put_subscription :: "env \<Rightarrow> request \<Rightarrow> unit io" where
  "put_subscription env req =
     (if data_newStripePlanSlug req = [] then throw Missing_parameters_dot
      else await (db_getExplorerById env (user_id (data_user req)) (params_id req) False) (\<lambda>explorer.
        case explorer of
          None \<Rightarrow> throw Cant_find_explorer
        | Some explorer \<Rightarrow>
            (case stripeSubscription explorer of
               None \<Rightarrow> throw Cant_find_explorer
             | Some current \<Rightarrow>
                 if plan_slug (stripePlan current) \<noteq> data_newStripePlanSlug req
                    \<and> isPendingCancelation current
                 then throw Revert_plan_cancelation
                 else await (db_getStripePlan env (data_newStripePlanSlug req)) (\<lambda>stripePlan'.
                   case stripePlan' of
                     None \<Rightarrow> throw Cant_find_plan
                   | Some stripePlan' \<Rightarrow>
                       if \<not> public stripePlan' then throw Cant_find_plan
                       else await
                         (if stripeId current \<noteq> [] then
                            await (stripe_subscriptions_retrieve env (stripeId current)) (\<lambda>subscription.
                              case subscription_items subscription of
                                [] \<Rightarrow> throw TypeError
                              | item # _ \<Rightarrow>
                                  await (stripe_subscriptions_update env (subscription_id subscription)
                                      \<lparr>cancel_at_period_end = False,
                                       proration_behavior = Some ''always_invoice'',
                                       item_price = Some (item_id item, stripePriceId stripePlan')\<rparr>)
                                    (\<lambda>_. ok (Some subscription)))
                          else ok None)
                         (\<lambda>subscription.
                           if isPendingCancelation current then
                             await (db_revertExplorerSubscriptionCancelation env
                                 (user_id (data_user req)) (explorer_id explorer)) (\<lambda>_. ok ())
                           else
                             await (db_updateExplorerSubscription env (user_id (data_user req))
                                 (explorer_id explorer) (plan_id stripePlan') subscription)
                               (\<lambda>_. ok ()))))))"

text \<open>\<open>router.delete('/:id/subscription', [authMiddleware, stripeMiddleware], ...)\<close>\<close>

definition delete_subscription :: "env \<Rightarrow> request \<Rightarrow> unit io" where
  "delete_subscription env req =
     await (db_getExplorerById env (user_id (data_user req)) (params_id req) False) (\<lambda>explorer.
       case explorer of
         None \<Rightarrow> throw Cant_find_explorer
       | Some explorer \<Rightarrow>
           (case stripeSubscription explorer of
              None \<Rightarrow> throw Cant_find_explorer
            | Some current \<Rightarrow>
                await
                  (if stripeId current \<noteq> [] then
                     await (stripe_subscriptions_retrieve env (stripeId current)) (\<lambda>subscription.
                       stripe_subscriptions_update env (subscription_id subscription)
                         \<lparr>cancel_at_period_end = True, proration_behavior = None, item_price = None\<rparr>)
                   else ok ())
                  (\<lambda>_. await (db_cancelExplorerSubscription env (user_id (data_user req))
                      (explorer_id explorer)) (\<lambda>_. ok ()))))"

text \<open>\<open>router.post('/:id/cryptoSubscription', [authMiddleware, stripeMiddleware], ...)\<close>\<close>

definition post_cryptoSubscription :: "env \<Rightarrow> request \<Rightarrow> unit io" where
  "post_cryptoSubscription env req =
     (if data_stripePlanSlug req = [] then throw Missing_parameter
      else if \<not> cryptoPaymentEnabled (data_user req) then throw Crypto_payment_not_available
      else await (db_getExplorerById env (user_id (data_user req)) (params_id req) True) (\<lambda>explorer.
        case explorer of
          None \<Rightarrow> throw Cant_find_explorer
        | Some explorer \<Rightarrow>
            await (db_getStripePlan env (data_stripePlanSlug req)) (\<lambda>stripePlan'.
              case stripePlan' of
                None \<Rightarrow> throw Cant_find_plan
              | Some stripePlan' \<Rightarrow>
                  if \<not> public stripePlan' then throw Cant_find_plan
                  else await (stripe_subscriptions_create env
                      \<lparr>customer = stripeCustomerId (data_user req),
                       price = stripePriceId stripePlan',
                       trial_period_days = None,
                       missing_payment_method = None,
                       collection_method = Some ''send_invoice'',
                       days_until_due = Some (getDefaultExplorerTrialDays env),
                       metadata_explorerId = explorer_id explorer\<rparr>)
                    (\<lambda>_. ok ()))))"

text \<open>\<open>router.delete('/:id', authMiddleware, ...)\<close>\<close>

definition delete_explorer :: "env \<Rightarrow> request \<Rightarrow> unit io" where
  "delete_explorer env req =
     await (db_deleteExplorer env (user_id (data_user req)) (params_id req)) (\<lambda>_. ok ())"

text \<open>\<open>router.get('/plans', [authMiddleware, stripeMiddleware], ...)\<close>\<close>

definition get_plans :: "env \<Rightarrow> request \<Rightarrow> plan list io" where
  "get_plans env req = await (db_getExplorerPlans env) (\<lambda>plans. ok plans)"

text \<open>\<open>router.post('/:id/domains', authMiddleware, ...)\<close>\<close>

definition post_domains :: "env \<Rightarrow> request \<Rightarrow> unit io" where
  "post_domains env req =
     (if data_domain req = [] then throw Missing_parameter
      else if suffix (getAppDomain env) (data_domain req) then throw Only_one_app_domain
      else await (db_getExplorerById env (user_id (data_user req)) (params_id req) False) (\<lambda>explorer.
        case explorer of
          None \<Rightarrow> throw Could_not_find_explorer
        | Some explorer \<Rightarrow>
            await (db_createExplorerDomain env (explorer_id explorer) (data_domain req)) (\<lambda>_. ok ())))"

text \<open>\<open>router.post('/:id/branding', authMiddleware, ...)\<close>\<close>

definition post_branding :: "env \<Rightarrow> request \<Rightarrow> unit io" where
  "post_branding env req =
     await (db_getExplorerById env (user_id (data_user req)) (params_id req) False) (\<lambda>explorer.
       case explorer of
         None \<Rightarrow> throw Could_not_find_explorer
       | Some explorer \<Rightarrow>
           await (db_updateExplorerBranding env (explorer_id explorer) req) (\<lambda>_. ok ()))"

text \<open>
  \<open>router.post('/:id/settings', authMiddleware, ...)\<close>. An explorer always carries its
  workspace here, so the test \<open>!explorer.workspace\<close> never fires.
\<close>

definition post_settings :: "env \<Rightarrow> request \<Rightarrow> unit io" where
  "post_settings env req =
     await (db_getExplorerById env (user_id (data_user req)) (params_id req) False) (\<lambda>explorer.
       case explorer of
         None \<Rightarrow> throw Could_not_find_explorer
       | Some explorer \<Rightarrow>
           await
             (if data_workspace req \<noteq> [] \<and> data_workspace req \<noteq> workspace_name (workspace explorer)
              then await (db_getWorkspaceByName env (data_uid req) (data_workspace req)) (\<lambda>ws.
                case ws of
                  None \<Rightarrow> throw Invalid_workspace
                | Some ws \<Rightarrow> db_updateExplorerWorkspace env (explorer_id explorer) (workspace_id ws))
              else ok ())
             (\<lambda>_. await (db_updateExplorerSettings env (explorer_id explorer) req) (\<lambda>_. ok ())))"

text \<open>
  \<open>router.post('/', authMiddleware, ...)\<close>. The user is not tested for \<open>null\<close>: reading
  \<open>user.id\<close> or \<open>user.defaultDataRetentionLimit\<close> of a missing user raises a \<open>TypeError\<close>, at
  the place where the source reads it.
\<close>

definition post_explorers :: "env \<Rightarrow> request \<Rightarrow> explorer io" where
  "post_explorers env req =
     (if data_workspaceId req = 0 \<and> \<not> (data_rpcServer req \<noteq> [] \<and> data_name req \<noteq> [])
      then throw Missing_parameters_dot
      else await (db_getUser env (data_uid req)) (\<lambda>user.
        await
          (if data_workspaceId req \<noteq> 0 then
             await (db_getWorkspaceById env (data_workspaceId req)) (\<lambda>ws.
               case ws of
                 None \<Rightarrow> throw Invalid_workspace
               | Some ws \<Rightarrow>
                   if workspace_explorer ws \<noteq> None then throw Workspace_already_has_explorer
                   else await (catch_throw Cant_query_rpc (provider_fetchNetworkId env (rpcServer ws)))
                     (\<lambda>_. case user of
                        None \<Rightarrow> throw TypeError
                      | Some u \<Rightarrow> db_createExplorerFromWorkspace env (user_id u) (workspace_id ws)))
           else
             await (catch_null (provider_fetchNetworkId env (data_rpcServer req))) (\<lambda>networkId.
               case networkId of
                 None \<Rightarrow> throw Cant_query_rpc
               | Some n \<Rightarrow>
                   if n = 0 then throw Cant_query_rpc
                   else (case user of
                      None \<Rightarrow> throw TypeError
                    | Some u \<Rightarrow>
                        db_createExplorerWithWorkspace env (user_id u)
                          \<lparr>wd_name = data_name req,
                           wd_networkId = n,
                           wd_rpcServer = data_rpcServer req,
                           wd_tracing = data_tracing req,
                           wd_dataRetentionLimit = defaultDataRetentionLimit u\<rparr>)))
          (\<lambda>explorer.
            case explorer of
              None \<Rightarrow> throw Could_not_create_explorer
            | Some explorer \<Rightarrow>
                (case user of
                   None \<Rightarrow> throw TypeError
                 | Some u \<Rightarrow>
                     await
                       (if \<not> isStripeEnabled env \<or> canUseDemoPlan u then
                          await (db_getStripePlan env (getDefaultPlanSlug env)) (\<lambda>stripePlan'.
                            case stripePlan' of
                              None \<Rightarrow> throw Cant_setup_explorer
                            | Some stripePlan' \<Rightarrow>
                                db_createExplorerSubscription env (user_id u) (explorer_id explorer)
                                  (plan_id stripePlan') None)
                        else if query_startSubscription req \<noteq> [] then
                          if data_plan req = [] then throw Missing_plan_parameter
                          else await (db_getStripePlan env (data_plan req)) (\<lambda>stripePlan'.
                            case stripePlan' of
                              None \<Rightarrow> throw Cant_find_plan
                            | Some stripePlan' \<Rightarrow>
                                if \<not> public stripePlan' then throw Cant_find_plan
                                else await
                                  (if \<not> cryptoPaymentEnabled u then
                                     await (stripe_customers_retrieve env (stripeCustomerId u))
                                       (\<lambda>stripeCustomer.
                                         if default_source stripeCustomer = [] then throw No_payment_method
                                         else ok
                                           \<lparr>customer = stripeCustomerId u,
                                            price = stripePriceId stripePlan',
                                            trial_period_days = None,
                                            missing_payment_method = None,
                                            collection_method = None,
                                            days_until_due = None,
                                            metadata_explorerId = explorer_id explorer\<rparr>)
                                   else ok
                                     \<lparr>customer = stripeCustomerId u,
                                      price = stripePriceId stripePlan',
                                      trial_period_days = None,
                                      missing_payment_method = None,
                                      collection_method = Some ''send_invoice'',
                                      days_until_due = Some 7,
                                      metadata_explorerId = explorer_id explorer\<rparr>)
                                  (\<lambda>stripeParams.
                                    await (stripe_subscriptions_create env stripeParams) (\<lambda>_. ok ())))
                        else ok ())
                       (\<lambda>_. ok explorer)))))"

text \<open>
  The end of \<open>router.get('/search', ...)\<close>: the explorer is filtered by the capabilities of
  its plan before it is sent (\<open>explorer.token = 'ether'\<close>, \<open>delete explorer.totalSupply\<close>,
  \<open>explorer.themes = { 'default': {}}\<close>).
\<close>

definition filter_by_capabilities :: "capabilities \<Rightarrow> explorerParams \<Rightarrow> explorerParams" where
  "filter_by_capabilities caps explorer =
     (let e1 = (if \<not> nativeToken caps then explorer\<lparr>token := ''ether''\<rparr> else explorer);
          e2 = (if \<not> totalSupply_cap caps then e1\<lparr>totalSupply := None\<rparr> else e1);
          e3 = (if \<not> branding caps then e2\<lparr>themes := Default_themes\<rparr> else e2)
      in e3)"

text \<open>
  \<open>router.get('/search', ...)\<close>. For the reserved domain the handler answers 200 with no
  body (\<open>None\<close>); otherwise the body is the explorer.
\<close>

definition get_search :: "env \<Rightarrow> request \<Rightarrow> explorerParams option io" where
  "get_search env req =
     (if query_domain req = [] then throw Missing_parameters_dot
      else if query_domain req = ''app.'' @ getAppDomain env then ok None
      else await
          (if suffix (getAppDomain env) (query_domain req) then
             db_getPublicExplorerParamsBySlug env
               (split_head (''.'' @ getAppDomain env) (query_domain req))
           else ok None)
          (\<lambda>bySlug.
            await
              (case bySlug of
                 None \<Rightarrow> db_getPublicExplorerParamsByDomain env (query_domain req)
               | Some e \<Rightarrow> ok (Some e))
              (\<lambda>explorer.
                case explorer of
                  None \<Rightarrow> throw Couldnt_find_explorer
                | Some explorer \<Rightarrow>
                    (case params_stripeSubscription explorer of
                       None \<Rightarrow> throw Explorer_not_active
                     | Some current \<Rightarrow>
                         ok (Some (filter_by_capabilities (capabilities (stripePlan current)) explorer))))))"

text \<open>\<open>router.get('/:id', authMiddleware, ...)\<close>\<close>

definition get_explorer :: "env \<Rightarrow> request \<Rightarrow> explorer io" where
  "get_explorer env req =
     (if params_id req = [] then throw Missing_parameters_dot
      else await (db_getExplorerById env (user_id (data_user req)) (params_id req) False) (\<lambda>explorer.
        case explorer of
          None \<Rightarrow> throw Could_not_find_explorer
        | Some explorer \<Rightarrow> ok explorer))"

text \<open>
  \<open>router.get('/', authMiddleware, ...)\<close>; the paging arguments are left out. The handler
  reads \<open>data.user.id\<close> from \<open>data = { ...req.body.data, ...req.query }\<close>: a parameter \<open>user\<close>
  of the query string replaces the user that the authentication middleware has set. The
  \<open>id\<close> of a string or of an array is \<open>undefined\<close>, and so is the one of an object that has
  no such key.
\<close>

definition get_explorers :: "env \<Rightarrow> request \<Rightarrow> explorer list io" where
  "get_explorers env req =
     await
       (db_getUserExplorers env
          (case query_user req of
             None \<Rightarrow> User_id (user_id (data_user req))
           | Some (Qs_object props) \<Rightarrow>
               (case map_of props ''id'' of None \<Rightarrow> Undefined | Some v \<Rightarrow> Query_id v)
           | Some _ \<Rightarrow> Undefined))
       (\<lambda>explorers. ok explorers)"

text \<open>The routes of the module, and the collaborator calls a request to each of them makes.\<close>

datatype route =
    Post_startTrial
  | Post_syncExplorers
  | Put_stopSync
  | Put_startSync
  | Get_syncStatus
  | Put_subscription
  | Delete_subscription
  | Post_cryptoSubscription
  | Delete_explorer
  | Get_plans
  | Post_domains
  | Post_branding
  | Post_settings
  | Post_explorers
  | Get_search
  | Get_explorer
  | Get_explorers

fun calls :: "env \<Rightarrow> route \<Rightarrow> request \<Rightarrow> call list" where
  "calls env Post_startTrial req = snd (post_startTrial env req)"
| "calls env Post_syncExplorers req = snd (post_syncExplorers env req)"
| "calls env Put_stopSync req = snd (put_stopSync env req)"
| "calls env Put_startSync req = snd (put_startSync env req)"
| "calls env Get_syncStatus req = snd (get_syncStatus env req)"
| "calls env Put_subscription req = snd (put_subscription env req)"
| "calls env Delete_subscription req = snd (delete_subscription env req)"
| "calls env Post_cryptoSubscription req = snd (post_cryptoSubscription env req)"
| "calls env Delete_explorer req = snd (delete_explorer env req)"
| "calls env Get_plans req = snd (get_plans env req)"
| "calls env Post_domains req = snd (post_domains env req)"
| "calls env Post_branding req = snd (post_branding env req)"
| "calls env Post_settings req = snd (post_settings env req)"
| "calls env Post_explorers req = snd (post_explorers env req)"
| "calls env Get_search req = snd (get_search env req)"
| "calls env Get_explorer req = snd (get_explorer env req)"
| "calls env Get_explorers req = snd (get_explorers env req)"

subsection \<open>A test double of the collaborators\<close>

text \<open>
  One user, two plans (one public, one not), two workspaces (one free, one linked to an
  explorer) and one explorer; every collaborator answers, and every write succeeds. The
  examples below vary it where a call has to fail.
\<close>

definition alice :: user where
  "alice =
     \<lparr>user_id = 1, stripeCustomerId = ''cus_1'', canTrial = True, canUseDemoPlan = False,
      cryptoPaymentEnabled = False, defaultDataRetentionLimit = 7\<rparr>"

definition all_capabilities :: capabilities where
  "all_capabilities = \<lparr>nativeToken = True, totalSupply_cap = True, branding = True, customDomain = True\<rparr>"

definition basic_plan :: plan where
  "basic_plan =
     \<lparr>plan_id = 3, plan_slug = ''basic'', stripePriceId = ''price_basic'', public = True,
      capabilities = all_capabilities\<rparr>"

definition legacy_plan :: plan where
  "legacy_plan =
     \<lparr>plan_id = 4, plan_slug = ''legacy'', stripePriceId = ''price_legacy'', public = False,
      capabilities = all_capabilities\<rparr>"

definition free_workspace :: workspace where
  "free_workspace =
     \<lparr>workspace_id = 5, workspace_name = ''main'', rpcServer = ''https://x'',
      workspace_explorer = None, rpcHealthCheck = None\<rparr>"

definition linked_workspace :: workspace where
  "linked_workspace =
     \<lparr>workspace_id = 6, workspace_name = ''chain'', rpcServer = ''https://y'',
      workspace_explorer = Some 7, rpcHealthCheck = Some \<lparr>isReachable = False\<rparr>\<rparr>"

definition explorer_7 :: explorer where
  "explorer_7 =
     \<lparr>explorer_id = 7, slug = ''chain'', workspace = linked_workspace, stripeSubscription = None\<rparr>"

definition explorer_8 :: explorer where
  "explorer_8 =
     \<lparr>explorer_id = 8, slug = ''main'', workspace = free_workspace\<lparr>workspace_explorer := Some 8\<rparr>,
      stripeSubscription = None\<rparr>"

definition subscribed :: "bool \<Rightarrow> plan \<Rightarrow> explorer" where
  "subscribed pending p =
     explorer_7\<lparr>stripeSubscription :=
       Some \<lparr>stripeId = [], isPendingCancelation = pending, stripePlan = p\<rparr>\<rparr>"

definition chain_params :: explorerParams where
  "chain_params =
     \<lparr>params_stripeSubscription = None, token = ''CHN'', totalSupply = Some ''1000'',
      themes = Themes ''dark''\<rparr>"

definition sub_1 :: stripe_subscription where
  "sub_1 =
     \<lparr>subscription_id = ''sub_1'', subscription_customer = ''cus_1'',
      subscription_items = [\<lparr>item_id = ''si_1''\<rparr>]\<rparr>"

definition cus_1 :: stripe_customer where
  "cus_1 = \<lparr>customer_id = ''cus_1'', default_source = ''card_1''\<rparr>"

definition test_db :: db where
  "test_db =
     \<lparr>getUser = (\<lambda>uid. Inr (if uid = ''alice'' then Some alice else None)),
      getExplorerById = (\<lambda>userId i withDemo. Inr (if userId = 1 \<and> i = ''7'' then Some explorer_7 else None)),
      getStripePlan = (\<lambda>s. Inr (if s = ''basic'' then Some basic_plan
                               else if s = ''legacy'' then Some legacy_plan else None)),
      createExplorerSubscription = (\<lambda>userId explorerId planId sub. Inr ()),
      disableUserTrial = (\<lambda>userId. Inr ()),
      stopExplorerSync = (\<lambda>explorerId. Inr ()),
      startExplorerSync = (\<lambda>explorerId. Inr ()),
      revertExplorerSubscriptionCancelation = (\<lambda>userId explorerId. Inr ()),
      updateExplorerSubscription = (\<lambda>userId explorerId planId sub. Inr ()),
      cancelExplorerSubscription = (\<lambda>userId explorerId. Inr ()),
      deleteExplorer = (\<lambda>userId i. Inr ()),
      getExplorerPlans = Inr [basic_plan],
      createExplorerDomain = (\<lambda>explorerId d. Inr ()),
      updateExplorerBranding = (\<lambda>explorerId d. Inr ()),
      getWorkspaceByName = (\<lambda>uid n. Inr (if n = ''main'' then Some free_workspace else None)),
      updateExplorerWorkspace = (\<lambda>explorerId workspaceId. Inr ()),
      updateExplorerSettings = (\<lambda>explorerId d. Inr ()),
      getWorkspaceById = (\<lambda>i. Inr (if i = 5 then Some free_workspace
                                  else if i = 6 then Some linked_workspace else None)),
      createExplorerFromWorkspace = (\<lambda>userId workspaceId. Inr (Some explorer_8)),
      createExplorerWithWorkspace = (\<lambda>userId wd. Inr (Some explorer_8)),
      getPublicExplorerParamsBySlug = (\<lambda>s. Inr (if s = ''chain'' then Some chain_params else None)),
      getPublicExplorerParamsByDomain = (\<lambda>d. Inr None),
      getUserExplorers = (\<lambda>userId. Inr (if userId = User_id 1 then [explorer_7] else []))\<rparr>"

definition test_stripe :: stripe where
  "test_stripe =
     \<lparr>subscriptions_create = (\<lambda>p. Inr (Some sub_1)),
      subscriptions_retrieve = (\<lambda>i. Inr sub_1),
      subscriptions_update = (\<lambda>i p. Inr ()),
      customers_retrieve = (\<lambda>i. Inr cus_1)\<rparr>"

definition test_env :: env where
  "test_env =
     \<lparr>db = test_db,
      stripe = test_stripe,
      isStripeEnabled = True,
      getAppDomain = ''ethernal.io'',
      getDefaultPlanSlug = ''basic'',
      getDefaultExplorerTrialDays = 7,
      findAll = Inr [explorer_7],
      hasReachedTransactionQuota = (\<lambda>e. Inr True),
      fetchNetworkId = (\<lambda>rpc. Inr (Some 1)),
      pm2_find = (\<lambda>s. Inr None),
      bulkEnqueue = (\<lambda>n jobs. Inr ())\<rparr>"

definition blank :: request where
  "blank =
     \<lparr>params_id = [], data_uid = ''alice'', data_user = alice, data_stripePlanSlug = [],
      data_newStripePlanSlug = [], data_workspaceId = 0, data_rpcServer = [], data_name = [],
      data_tracing = [], data_plan = [], data_domain = [], data_workspace = [],
      query_startSubscription = [], query_domain = [], query_user = None\<rparr>"

text \<open>Variations of the test double: one collaborator answers differently.\<close>

definition with_explorer :: "explorer \<Rightarrow> env \<Rightarrow> env" where
  "with_explorer e env = env\<lparr>db := (db env)\<lparr>getExplorerById := (\<lambda>userId i withDemo. Inr (Some e))\<rparr>\<rparr>"

definition with_disableUserTrial :: "(error + unit) \<Rightarrow> env \<Rightarrow> env" where
  "with_disableUserTrial r env = env\<lparr>db := (db env)\<lparr>disableUserTrial := (\<lambda>userId. r)\<rparr>\<rparr>"

definition with_fetchNetworkId :: "(error + nat option) \<Rightarrow> env \<Rightarrow> env" where
  "with_fetchNetworkId r env = env\<lparr>fetchNetworkId := (\<lambda>rpc. r)\<rparr>"

definition with_customer :: "stripe_customer \<Rightarrow> env \<Rightarrow> env" where
  "with_customer c env = env\<lparr>stripe := (stripe env)\<lparr>customers_retrieve := (\<lambda>i. Inr c)\<rparr>\<rparr>"

definition with_workspaceByName :: "workspace \<Rightarrow> env \<Rightarrow> env" where
  "with_workspaceByName ws env = env\<lparr>db := (db env)\<lparr>getWorkspaceByName := (\<lambda>uid n. Inr (Some ws))\<rparr>\<rparr>"

subsection \<open>The trial flag in the persistence layer\<close>

text \<open>
  Modelled from the spec: the user table behind \<open>db.getUser\<close> and \<open>db.disableUserTrial\<close>
  (\<open>../lib/firebase\<close>, which is not among the sources). The spec says of the user that it is
  an "account with a trial-eligibility flag (canTrial)", that starting a trial "flips canTrial
  to false", and that the flag "never reverts". So the table maps the authentication id to
  the user; \<open>db.disableUserTrial(id)\<close>, when it succeeds, clears the flag of the user with
  that id; no other call of the module writes the flag; \<open>db.getUser(uid)\<close> reads the table.
\<close>

type_synonym users = "string \<Rightarrow> user option"

definition disable_trial :: "nat \<Rightarrow> users \<Rightarrow> users" where
  "disable_trial userId us =
     (\<lambda>uid. map_option (\<lambda>u. if user_id u = userId then u\<lparr>canTrial := False\<rparr> else u) (us uid))"

fun written :: "env \<Rightarrow> call \<Rightarrow> users \<Rightarrow> users" where
  "written env (Db_disableUserTrial userId) us =
     (if disableUserTrial (db env) userId = Inr () then disable_trial userId us else us)"
| "written env c us = us"

definition reading :: "users \<Rightarrow> env \<Rightarrow> env" where
  "reading us env = env\<lparr>db := (db env)\<lparr>getUser := (\<lambda>uid. Inr (us uid))\<rparr>\<rparr>"

text \<open>The user table after a request was served from the table \<open>us\<close>.\<close>

definition serve :: "env \<Rightarrow> route \<Rightarrow> request \<Rightarrow> users \<Rightarrow> users" where
  "serve env r req us = fold (written (reading us env)) (calls (reading us env) r req) us"

text \<open>The user table after a sequence of requests, each with its own collaborators.\<close>

fun serve_all :: "(env \<times> route \<times> request) list \<Rightarrow> users \<Rightarrow> users" where
  "serve_all [] us = us"
| "serve_all ((env, r, req) # rs) us = serve_all rs (serve env r req us)"

definition only_alice :: users where
  "only_alice = (\<lambda>uid. if uid = ''alice'' then Some alice else None)"

definition alice_after_trial :: users where
  "alice_after_trial = (\<lambda>uid. if uid = ''alice'' then Some (alice\<lparr>canTrial := False\<rparr>) else None)"

section \<open>Properties\<close>

lemmas io_defs = await_def ok_def throw_def invoke_def catch_throw_def catch_null_def

lemmas collab_defs = db_getUser_def db_getExplorerById_def db_getStripePlan_def
  db_createExplorerSubscription_def db_disableUserTrial_def db_stopExplorerSync_def
  db_startExplorerSync_def db_revertExplorerSubscriptionCancelation_def
  db_updateExplorerSubscription_def db_cancelExplorerSubscription_def db_deleteExplorer_def
  db_getExplorerPlans_def db_createExplorerDomain_def db_updateExplorerBranding_def
  db_getWorkspaceByName_def db_updateExplorerWorkspace_def db_updateExplorerSettings_def
  db_getWorkspaceById_def db_createExplorerFromWorkspace_def db_createExplorerWithWorkspace_def
  db_getPublicExplorerParamsBySlug_def db_getPublicExplorerParamsByDomain_def
  db_getUserExplorers_def explorer_findAll_def explorer_hasReachedTransactionQuota_def
  stripe_subscriptions_create_def stripe_subscriptions_retrieve_def
  stripe_subscriptions_update_def stripe_customers_retrieve_def provider_fetchNetworkId_def
  pm2_find_process_def queue_bulkEnqueue_def

lemmas test_defs = test_env_def test_db_def test_stripe_def alice_def basic_plan_def
  legacy_plan_def free_workspace_def linked_workspace_def explorer_7_def explorer_8_def
  subscribed_def chain_params_def sub_1_def cus_1_def blank_def all_capabilities_def
  with_explorer_def with_disableUserTrial_def with_fetchNetworkId_def with_customer_def
  with_workspaceByName_def

subsection \<open>Awaiting and the list of calls\<close>

lemma fst_await:
  "fst (await m k) = (case fst m of Inl e \<Rightarrow> Inl e | Inr x \<Rightarrow> fst (k x))"
  by (simp add: await_def split: prod.splits sum.splits)

lemma snd_await:
  "snd (await m k) = snd m @ (case fst m of Inl e \<Rightarrow> [] | Inr x \<Rightarrow> snd (k x))"
  by (simp add: await_def split: prod.splits sum.splits)

lemma in_calls_await:
  "c \<in> set (snd (await m k)) \<Longrightarrow>
     c \<in> set (snd m) \<or> (\<exists>x. fst m = Inr x \<and> c \<in> set (snd (k x)))"
  by (auto simp add: snd_await split: sum.splits)

lemma fst_catch_throw [simp]:
  "fst (catch_throw e m) = (case fst m of Inl e' \<Rightarrow> Inl e | Inr x \<Rightarrow> Inr x)"
  by (simp add: catch_throw_def split: prod.splits sum.splits)

lemma snd_catch_throw [simp]: "snd (catch_throw e m) = snd m"
  by (auto simp add: catch_throw_def split: prod.splits sum.splits)

lemma snd_catch_null [simp]: "snd (catch_null m) = snd m"
  by (auto simp add: catch_null_def split: prod.splits sum.splits)

lemma fst_invoke [simp]: "fst (invoke c r) = r"
  by (simp add: invoke_def)

lemma snd_invoke [simp]: "snd (invoke c r) = [c]"
  by (simp add: invoke_def)

lemma snd_ok [simp]: "snd (ok x) = []"
  by (simp add: ok_def)

lemma snd_throw [simp]: "snd (throw e) = []"
  by (simp add: throw_def)

lemma not_truthy: "\<not> truthy n \<longleftrightarrow> n = None \<or> n = Some 0"
  by (cases n) (simp_all add: truthy_def)

subsection \<open>Creating an explorer: the shape of the request\<close>




subsection \<open>Starting a trial: the subscription record and the trial flag\<close>

text \<open>
  Claim C2, as amended. Once the trial subscription exists at the billing provider,
  \<open>startTrial\<close> writes the local subscription record and then flips \<open>canTrial\<close>, as two calls
  of the persistence layer that are awaited one after the other, and it answers 200 only
  when both succeeded. When the record cannot be written, the failure is reported and the
  flip is not attempted: the flag is never cleared without a subscription record. When the
  flip fails after the record was written, the failure is reported and the record stays:
  nothing undoes it, the two writes are not one unit.
\<close>

theorem startTrial_record_then_flag:
  assumes "data_stripePlanSlug req \<noteq> []"
    and "getUser (db env) (data_uid req) = Inr (Some u)"
    and "canTrial u"
    and "getExplorerById (db env) (user_id u) (params_id req) False = Inr (Some e)"
    and "getStripePlan (db env) (data_stripePlanSlug req) = Inr (Some p)"
    and "subscriptions_create (stripe env)
           \<lparr>customer = stripeCustomerId u, price = stripePriceId p,
            trial_period_days = Some (getDefaultExplorerTrialDays env),
            missing_payment_method = Some ''cancel'', collection_method = None,
            days_until_due = None, metadata_explorerId = explorer_id e\<rparr> = Inr (Some s)"
    and "customers_retrieve (stripe env) (subscription_customer s) = Inr c"
  defines "before \<equiv>
      [Db_getUser (data_uid req), Db_getExplorerById (user_id u) (params_id req) False,
       Db_getStripePlan (data_stripePlanSlug req),
       Stripe_subscriptions_create
         \<lparr>customer = stripeCustomerId u, price = stripePriceId p,
          trial_period_days = Some (getDefaultExplorerTrialDays env),
          missing_payment_method = Some ''cancel'', collection_method = None,
          days_until_due = None, metadata_explorerId = explorer_id e\<rparr>,
       Stripe_customers_retrieve (subscription_customer s)]"
    and "record \<equiv> Db_createExplorerSubscription (user_id u) (explorer_id e) (plan_id p) (Some (s, c))"
    and "flip \<equiv> Db_disableUserTrial (user_id u)"
  shows "post_startTrial env req =
    (case createExplorerSubscription (db env) (user_id u) (explorer_id e) (plan_id p) (Some (s, c)) of
       Inl err \<Rightarrow> (Inl err, before @ [record])
     | Inr _ \<Rightarrow>
         (case disableUserTrial (db env) (user_id u) of
            Inl err \<Rightarrow> (Inl err, before @ [record, flip])
          | Inr _ \<Rightarrow> (Inr (), before @ [record, flip])))"
  using assms
  by (simp add: post_startTrial_def collab_defs io_defs split: sum.splits)

theorem startTrial_record_then_flag_witness:
  "post_startTrial test_env (blank\<lparr>params_id := ''7'', data_stripePlanSlug := ''basic''\<rparr>) =
     (Inr (),
      [Db_getUser ''alice'', Db_getExplorerById 1 ''7'' False, Db_getStripePlan ''basic'',
       Stripe_subscriptions_create
         \<lparr>customer = ''cus_1'', price = ''price_basic'', trial_period_days = Some 7,
          missing_payment_method = Some ''cancel'', collection_method = None,
          days_until_due = None, metadata_explorerId = 7\<rparr>,
       Stripe_customers_retrieve ''cus_1'',
       Db_createExplorerSubscription 1 7 3 (Some (sub_1, cus_1)),
       Db_disableUserTrial 1])"
  using startTrial_record_then_flag
    [of "blank\<lparr>params_id := ''7'', data_stripePlanSlug := ''basic''\<rparr>" test_env alice explorer_7
      basic_plan sub_1 cus_1]
  by (simp add: test_defs)

text \<open>
  The claim as it was stated fails when the flip is rejected: the handler answers 400 with
  the rejection, and the subscription record has been created (its write, the last call
  but one, succeeded).
\<close>

theorem startTrial_flag_write_fails_counterexample:
  "post_startTrial (with_disableUserTrial (Inl (Rejected ''deadlock detected'')) test_env)
     (blank\<lparr>params_id := ''7'', data_stripePlanSlug := ''basic''\<rparr>) =
     (Inl (Rejected ''deadlock detected''),
      [Db_getUser ''alice'', Db_getExplorerById 1 ''7'' False, Db_getStripePlan ''basic'',
       Stripe_subscriptions_create
         \<lparr>customer = ''cus_1'', price = ''price_basic'', trial_period_days = Some 7,
          missing_payment_method = Some ''cancel'', collection_method = None,
          days_until_due = None, metadata_explorerId = 7\<rparr>,
       Stripe_customers_retrieve ''cus_1'',
       Db_createExplorerSubscription 1 7 3 (Some (sub_1, cus_1)),
       Db_disableUserTrial 1])
   \<and> createExplorerSubscription
        (db (with_disableUserTrial (Inl (Rejected ''deadlock detected'')) test_env))
        1 7 3 (Some (sub_1, cus_1)) = Inr ()"
  by (simp add: post_startTrial_def collab_defs test_defs io_defs)

subsection \<open>Changing the plan while the cancelation is pending\<close>

text \<open>
  Claim C3, as amended. Let the explorer's subscription be pending cancelation and a plan
  slug be requested. If the slug differs from the slug of the current plan, the call is
  answered 400 "Revert plan cancelation before choosing a new plan." (the spec's \<open>Conflict\<close>)
  right after the explorer was looked up: neither the billing provider nor the local record
  is touched. If the slug is the one of the current plan, that test is passed and the call
  goes on as any plan change does: it is answered 400 "Can't find plan." when the slug does
  not resolve to a public plan; otherwise, the billing calls (made only when the subscription
  has an external id) and the local write succeeding, it is answered 200, and the local
  write is the revert of the pending cancelation. In no case is the plan reference of a
  pending subscription updated.
\<close>

theorem change_plan_while_pending:
  assumes "data_newStripePlanSlug req \<noteq> []"
    and "getExplorerById (db env) (user_id (data_user req)) (params_id req) False = Inr (Some e)"
    and "stripeSubscription e = Some cur"
    and "isPendingCancelation cur"
  defines "lookup \<equiv> Db_getExplorerById (user_id (data_user req)) (params_id req) False"
    and "plan_lookup \<equiv> Db_getStripePlan (data_newStripePlanSlug req)"
    and "revert \<equiv> Db_revertExplorerSubscriptionCancelation (user_id (data_user req)) (explorer_id e)"
  shows "(plan_slug (stripePlan cur) \<noteq> data_newStripePlanSlug req \<longrightarrow>
            put_subscription env req = (Inl Revert_plan_cancelation, [lookup]))
       \<and> (plan_slug (stripePlan cur) = data_newStripePlanSlug req \<longrightarrow>
            (getStripePlan (db env) (data_newStripePlanSlug req) = Inr None \<longrightarrow>
               put_subscription env req = (Inl Cant_find_plan, [lookup, plan_lookup]))
          \<and> (\<forall>p. getStripePlan (db env) (data_newStripePlanSlug req) = Inr (Some p) \<and> \<not> public p \<longrightarrow>
               put_subscription env req = (Inl Cant_find_plan, [lookup, plan_lookup]))
          \<and> (\<forall>p. getStripePlan (db env) (data_newStripePlanSlug req) = Inr (Some p) \<and> public p
                 \<and> stripeId cur = []
                 \<and> revertExplorerSubscriptionCancelation (db env) (user_id (data_user req))
                      (explorer_id e) = Inr ()
               \<longrightarrow> put_subscription env req = (Inr (), [lookup, plan_lookup, revert]))
          \<and> (\<forall>p s item items'.
                 getStripePlan (db env) (data_newStripePlanSlug req) = Inr (Some p) \<and> public p
                 \<and> stripeId cur \<noteq> []
                 \<and> subscriptions_retrieve (stripe env) (stripeId cur) = Inr s
                 \<and> subscription_items s = item # items'
                 \<and> subscriptions_update (stripe env) (subscription_id s)
                      \<lparr>cancel_at_period_end = False, proration_behavior = Some ''always_invoice'',
                       item_price = Some (item_id item, stripePriceId p)\<rparr> = Inr ()
                 \<and> revertExplorerSubscriptionCancelation (db env) (user_id (data_user req))
                      (explorer_id e) = Inr ()
               \<longrightarrow> put_subscription env req =
                     (Inr (),
                      [lookup, plan_lookup, Stripe_subscriptions_retrieve (stripeId cur),
                       Stripe_subscriptions_update (subscription_id s)
                         \<lparr>cancel_at_period_end = False, proration_behavior = Some ''always_invoice'',
                          item_price = Some (item_id item, stripePriceId p)\<rparr>,
                       revert])))
       \<and> (\<forall>userId explorerId planId s.
             Db_updateExplorerSubscription userId explorerId planId s
               \<notin> set (snd (put_subscription env req)))"
  using assms
  by (auto simp add: put_subscription_def collab_defs io_defs
      split: sum.splits option.splits if_splits list.splits)

theorem change_plan_while_pending_witness:
  "put_subscription (with_explorer (subscribed True basic_plan) test_env)
     (blank\<lparr>params_id := ''7'', data_newStripePlanSlug := ''basic''\<rparr>) =
     (Inr (),
      [Db_getExplorerById 1 ''7'' False, Db_getStripePlan ''basic'',
       Db_revertExplorerSubscriptionCancelation 1 7])
   \<and> put_subscription (with_explorer (subscribed True legacy_plan) test_env)
     (blank\<lparr>params_id := ''7'', data_newStripePlanSlug := ''basic''\<rparr>) =
     (Inl Revert_plan_cancelation, [Db_getExplorerById 1 ''7'' False])"
  using change_plan_while_pending
    [of "blank\<lparr>params_id := ''7'', data_newStripePlanSlug := ''basic''\<rparr>"
      "with_explorer (subscribed True basic_plan) test_env" "subscribed True basic_plan"
      "\<lparr>stripeId = [], isPendingCancelation = True, stripePlan = basic_plan\<rparr>"]
    change_plan_while_pending
    [of "blank\<lparr>params_id := ''7'', data_newStripePlanSlug := ''basic''\<rparr>"
      "with_explorer (subscribed True legacy_plan) test_env" "subscribed True legacy_plan"
      "\<lparr>stripeId = [], isPendingCancelation = True, stripePlan = legacy_plan\<rparr>"]
  by (simp add: test_defs)

text \<open>
  The claim as it was stated fails when the current plan is not public: the slug of the
  current plan is requested while the cancelation is pending, and the call is answered 400
  "Can't find plan."; the cancelation is not reverted.
\<close>

theorem change_to_same_private_plan_counterexample:
  "put_subscription (with_explorer (subscribed True legacy_plan) test_env)
     (blank\<lparr>params_id := ''7'', data_newStripePlanSlug := ''legacy''\<rparr>) =
     (Inl Cant_find_plan, [Db_getExplorerById 1 ''7'' False, Db_getStripePlan ''legacy''])"
  by (simp add: put_subscription_def collab_defs test_defs io_defs)

subsection \<open>The sync status\<close>

text \<open>
  Claim C4. For an explorer that exists, the status is decided in a fixed order. If the
  cached health check of the workspace says that the RPC is not reachable, the answer is
  \<open>unreachable\<close>, and the quota is not even evaluated. Otherwise, if the quota evaluator
  answers true, it is \<open>transactionQuotaReached\<close>, and the process supervisor is not asked.
  Otherwise it is the status the process supervisor reports for the slug, and \<open>stopped\<close> when
  it knows no such process. (A rejection of the evaluator or of the supervisor is answered
  400, as every rejection is.)
\<close>

theorem syncStatus_order:
  assumes "params_id req \<noteq> []"
    and "getExplorerById (db env) (user_id (data_user req)) (params_id req) False = Inr (Some e)"
  defines "lookup \<equiv> Db_getExplorerById (user_id (data_user req)) (params_id req) False"
    and "quota \<equiv> Explorer_hasReachedTransactionQuota (explorer_id e)"
  shows "get_syncStatus env req =
    (if \<exists>check. rpcHealthCheck (workspace e) = Some check \<and> \<not> isReachable check
     then (Inr ''unreachable'', [lookup])
     else
       (case hasReachedTransactionQuota env e of
          Inl err \<Rightarrow> (Inl err, [lookup, quota])
        | Inr True \<Rightarrow> (Inr ''transactionQuotaReached'', [lookup, quota])
        | Inr False \<Rightarrow>
            (case pm2_find env (slug e) of
               Inl err \<Rightarrow> (Inl err, [lookup, quota, Pm2_find (slug e)])
             | Inr None \<Rightarrow> (Inr ''stopped'', [lookup, quota, Pm2_find (slug e)])
             | Inr (Some p) \<Rightarrow> (Inr (status p), [lookup, quota, Pm2_find (slug e)]))))"
  using assms
  by (auto simp add: get_syncStatus_def collab_defs io_defs
      split: sum.splits option.splits bool.splits)

text \<open>
  In the test double the RPC of explorer 7 is unreachable and its quota is reached: the
  status is \<open>unreachable\<close>. Explorer 8 has no health check and its quota is reached.
\<close>

theorem syncStatus_order_witness:
  "hasReachedTransactionQuota test_env explorer_7 = Inr True
   \<and> get_syncStatus test_env (blank\<lparr>params_id := ''7''\<rparr>) =
       (Inr ''unreachable'', [Db_getExplorerById 1 ''7'' False])
   \<and> get_syncStatus (with_explorer explorer_8 test_env) (blank\<lparr>params_id := ''8''\<rparr>) =
       (Inr ''transactionQuotaReached'',
        [Db_getExplorerById 1 ''8'' False, Explorer_hasReachedTransactionQuota 8])"
  using syncStatus_order [of "blank\<lparr>params_id := ''7''\<rparr>" test_env explorer_7]
    syncStatus_order
      [of "blank\<lparr>params_id := ''8''\<rparr>" "with_explorer explorer_8 test_env" explorer_8]
  by (simp add: test_defs)

subsection \<open>The public lookup by domain\<close>

text \<open>
  Claim C5. Let a domain be given that is not the platform's own \<open>app.\<close> subdomain. When
  the domain ends with the platform's root domain, the explorer is first looked up by slug,
  the slug being the part of the domain before the root; when that finds nothing, or the
  domain does not end with the root, it is looked up by custom domain (a lookup that, says
  the source, answers \<open>null\<close> when the plan of the explorer lacks the \<open>customDomain\<close>
  capability: that is decided inside the persistence layer). When nothing is found the call
  is answered 400 "Couldn't find explorer." (the spec's \<open>NotFound\<close>); when an explorer is
  found that has no subscription it is answered 400 "This explorer is not active." (the
  spec's \<open>Inactive\<close>); otherwise it is answered 200 with the explorer, filtered by the
  capabilities of its plan.
\<close>

theorem search_resolution:
  assumes "query_domain req \<noteq> []"
    and "query_domain req \<noteq> ''app.'' @ getAppDomain env"
  defines "d \<equiv> query_domain req"
    and "s \<equiv> split_head (''.'' @ getAppDomain env) (query_domain req)"
    and "answer \<equiv> (\<lambda>e. case params_stripeSubscription e of
           None \<Rightarrow> Inl Explorer_not_active
         | Some current \<Rightarrow>
             Inr (Some (filter_by_capabilities (capabilities (stripePlan current)) e)))"
  shows "(suffix (getAppDomain env) d \<longrightarrow>
            (\<forall>e. getPublicExplorerParamsBySlug (db env) s = Inr (Some e) \<longrightarrow>
               get_search env req = (answer e, [Db_getPublicExplorerParamsBySlug s]))
          \<and> (getPublicExplorerParamsBySlug (db env) s = Inr None \<longrightarrow>
               (getPublicExplorerParamsByDomain (db env) d = Inr None \<longrightarrow>
                  get_search env req =
                    (Inl Couldnt_find_explorer,
                     [Db_getPublicExplorerParamsBySlug s, Db_getPublicExplorerParamsByDomain d]))
             \<and> (\<forall>e. getPublicExplorerParamsByDomain (db env) d = Inr (Some e) \<longrightarrow>
                  get_search env req =
                    (answer e,
                     [Db_getPublicExplorerParamsBySlug s, Db_getPublicExplorerParamsByDomain d]))))
       \<and> (\<not> suffix (getAppDomain env) d \<longrightarrow>
            (getPublicExplorerParamsByDomain (db env) d = Inr None \<longrightarrow>
               get_search env req =
                 (Inl Couldnt_find_explorer, [Db_getPublicExplorerParamsByDomain d]))
          \<and> (\<forall>e. getPublicExplorerParamsByDomain (db env) d = Inr (Some e) \<longrightarrow>
               get_search env req = (answer e, [Db_getPublicExplorerParamsByDomain d])))"
  using assms
  by (auto simp add: get_search_def collab_defs io_defs split: option.splits)

text \<open>
  In the test double the root domain is \<open>ethernal.io\<close>. The slug \<open>chain\<close> resolves to an
  explorer that has no subscription; the slug \<open>nobody\<close> resolves to nothing, and neither
  does the domain \<open>nobody.ethernal.io\<close>; \<open>explorer.example.org\<close> is looked up by domain only.
\<close>

theorem search_resolution_witness:
  "get_search test_env (blank\<lparr>query_domain := ''chain.ethernal.io''\<rparr>) =
     (Inl Explorer_not_active, [Db_getPublicExplorerParamsBySlug ''chain''])
   \<and> get_search test_env (blank\<lparr>query_domain := ''nobody.ethernal.io''\<rparr>) =
     (Inl Couldnt_find_explorer,
      [Db_getPublicExplorerParamsBySlug ''nobody'',
       Db_getPublicExplorerParamsByDomain ''nobody.ethernal.io''])
   \<and> get_search test_env (blank\<lparr>query_domain := ''explorer.example.org''\<rparr>) =
     (Inl Couldnt_find_explorer, [Db_getPublicExplorerParamsByDomain ''explorer.example.org''])"
  using search_resolution [of "blank\<lparr>query_domain := ''chain.ethernal.io''\<rparr>" test_env]
    search_resolution [of "blank\<lparr>query_domain := ''nobody.ethernal.io''\<rparr>" test_env]
    search_resolution [of "blank\<lparr>query_domain := ''explorer.example.org''\<rparr>" test_env]
  by (simp add: test_defs suffix_to_prefix)

subsection \<open>Creating an explorer: one explorer for a workspace\<close>




subsection \<open>The trial flag\<close>

lemma startTrial_refused:
  assumes "getUser (db env) (data_uid req) = Inr (Some u)"
    and "\<not> canTrial u"
  shows "post_startTrial env req =
    (if data_stripePlanSlug req = [] then (Inl Missing_parameter, [])
     else (Inl Already_used_trial, [Db_getUser (data_uid req)]))"
  using assms by (simp add: post_startTrial_def collab_defs io_defs)

lemma flag_call_only_in_startTrial:
  "r \<noteq> Post_startTrial \<Longrightarrow> Db_disableUserTrial userId \<notin> set (calls env r req)"
proof (cases r)
  case Post_explorers
  then show ?thesis
    unfolding calls.simps Post_explorers post_explorers_def collab_defs
    by (auto dest!: in_calls_await split: option.splits if_splits)
next
  case Put_subscription
  then show ?thesis
    unfolding calls.simps Put_subscription put_subscription_def collab_defs
    by (auto dest!: in_calls_await split: option.splits if_splits list.splits)
qed (auto simp add: post_syncExplorers_def put_stopSync_def put_startSync_def get_syncStatus_def
  delete_subscription_def post_cryptoSubscription_def delete_explorer_def get_plans_def
  post_domains_def post_branding_def post_settings_def get_search_def get_explorer_def
  get_explorers_def collab_defs dest!: in_calls_await split: option.splits if_splits)

lemma flag_call_in_startTrial:
  assumes "Db_disableUserTrial userId \<in> set (snd (post_startTrial env req))"
  shows "\<exists>u e p s. getUser (db env) (data_uid req) = Inr (Some u) \<and> canTrial u \<and> userId = user_id u
       \<and> createExplorerSubscription (db env) userId e p s = Inr ()
       \<and> Db_createExplorerSubscription userId e p s \<in> set (snd (post_startTrial env req))
       \<and> (disableUserTrial (db env) userId = Inr () \<longrightarrow> fst (post_startTrial env req) = Inr ())"
  using assms
  by (auto simp add: post_startTrial_def collab_defs io_defs
      split: sum.splits option.splits if_splits)

lemma startTrial_success:
  assumes "fst (post_startTrial env req) = Inr ()"
  shows "\<exists>u. getUser (db env) (data_uid req) = Inr (Some u) \<and> canTrial u
       \<and> disableUserTrial (db env) (user_id u) = Inr ()
       \<and> Db_disableUserTrial (user_id u) \<in> set (snd (post_startTrial env req))"
  using assms
  by (auto simp add: post_startTrial_def collab_defs io_defs
      split: sum.splits option.splits if_splits)

lemma written_keeps:
  assumes "us uid = Some u"
  shows "\<exists>u'. written env c us uid = Some u' \<and> user_id u' = user_id u
       \<and> (canTrial u' \<longrightarrow> canTrial u)
       \<and> (canTrial u \<and> \<not> canTrial u' \<longrightarrow>
            (\<exists>userId. c = Db_disableUserTrial userId \<and> disableUserTrial (db env) userId = Inr ()))"
  using assms by (cases c) (auto simp add: disable_trial_def)

lemma fold_written_keeps:
  assumes "us uid = Some u"
  shows "\<exists>u'. fold (written env) cs us uid = Some u' \<and> user_id u' = user_id u
       \<and> (canTrial u' \<longrightarrow> canTrial u)
       \<and> (canTrial u \<and> \<not> canTrial u' \<longrightarrow>
            (\<exists>userId. Db_disableUserTrial userId \<in> set cs \<and> disableUserTrial (db env) userId = Inr ()))"
  using assms
proof (induction cs arbitrary: us u)
  case Nil
  then show ?case by simp
next
  case (Cons c cs)
  from written_keeps [where us = us and uid = uid and u = u and env = env and c = c] Cons.prems
  obtain u1
    where u1: "written env c us uid = Some u1" "user_id u1 = user_id u"
      "canTrial u1 \<longrightarrow> canTrial u"
      "canTrial u \<and> \<not> canTrial u1 \<longrightarrow>
         (\<exists>userId. c = Db_disableUserTrial userId \<and> disableUserTrial (db env) userId = Inr ())"
    by blast
  from Cons.IH [where us = "written env c us" and u = u1] u1(1) obtain u'
    where u': "fold (written env) cs (written env c us) uid = Some u'" "user_id u' = user_id u1"
      "canTrial u' \<longrightarrow> canTrial u1"
      "canTrial u1 \<and> \<not> canTrial u' \<longrightarrow>
         (\<exists>userId. Db_disableUserTrial userId \<in> set cs \<and> disableUserTrial (db env) userId = Inr ())"
    by blast
  from u1 u' show ?case by (cases "canTrial u1") auto
qed

lemma fold_written_None:
  "us uid = None \<Longrightarrow> fold (written env) cs us uid = None"
proof (induction cs arbitrary: us)
  case Nil
  then show ?case by simp
next
  case (Cons c cs)
  have "written env c us uid = None"
    using Cons.prems by (cases c) (auto simp add: disable_trial_def)
  then show ?case using Cons.IH by simp
qed

lemma fold_written_flips:
  assumes "Db_disableUserTrial userId \<in> set cs"
    and "disableUserTrial (db env) userId = Inr ()"
    and "us uid = Some u"
    and "user_id u = userId"
  shows "\<exists>u'. fold (written env) cs us uid = Some u' \<and> \<not> canTrial u'"
  using assms
proof (induction cs arbitrary: us u)
  case Nil
  then show ?case by simp
next
  case (Cons c cs)
  show ?case
  proof (cases "c = Db_disableUserTrial userId")
    case True
    with Cons.prems have "written env c us uid = Some (u\<lparr>canTrial := False\<rparr>)"
      by (simp add: disable_trial_def)
    from fold_written_keeps
      [where us = "written env c us" and uid = uid and u = "u\<lparr>canTrial := False\<rparr>" and env = env
        and cs = cs] this
    show ?thesis by auto
  next
    case False
    with Cons.prems have in_cs: "Db_disableUserTrial userId \<in> set cs" by simp
    from written_keeps [where us = us and uid = uid and u = u and env = env and c = c] Cons.prems(3)
    obtain u1 where "written env c us uid = Some u1" "user_id u1 = user_id u" by blast
    with Cons.IH [where us = "written env c us" and u = u1] in_cs Cons.prems(2) Cons.prems(4)
    show ?thesis by simp
  qed
qed

lemma getUser_reading [simp]: "getUser (db (reading us env)) uid = Inr (us uid)"
  by (simp add: reading_def)

lemma disableUserTrial_reading [simp]:
  "disableUserTrial (db (reading us env)) = disableUserTrial (db env)"
  by (simp add: reading_def)

lemma serve_keeps:
  assumes "serve env r req us uid = Some u'"
  shows "\<exists>u. us uid = Some u \<and> (canTrial u' \<longrightarrow> canTrial u)"
proof (cases "us uid")
  case None
  from fold_written_None [where us = us and uid = uid] this assms
  show ?thesis by (simp add: serve_def)
next
  case (Some u)
  from fold_written_keeps
    [where us = us and uid = uid and u = u and env = "reading us env"
      and cs = "calls (reading us env) r req"] assms Some
  show ?thesis by (auto simp add: serve_def)
qed

lemma serve_all_keeps:
  assumes "serve_all rs us uid = Some u'"
  shows "\<exists>u. us uid = Some u \<and> (canTrial u' \<longrightarrow> canTrial u)"
  using assms
proof (induction rs arbitrary: us)
  case Nil
  then show ?case by simp
next
  case (Cons x rs)
  obtain env r req where x: "x = (env, r, req)" by (cases x)
  with Cons.prems have "serve_all rs (serve env r req us) uid = Some u'" by simp
  from Cons.IH [OF this] obtain u1
    where u1: "serve env r req us uid = Some u1" "canTrial u' \<longrightarrow> canTrial u1" by blast
  from serve_keeps [OF u1(1)] u1(2) show ?case by blast
qed

text \<open>
  Claim C7, as amended. The user table is the one modelled above; the handlers read it
  through \<open>db.getUser\<close>. (1) A \<open>startTrial\<close> request of a user whose flag is false is refused
  before any subscription is created, at the billing provider or locally: when it carries a
  plan slug it is answered 400 "You've already used your trial." (the spec's \<open>Forbidden\<close>)
  right after the user was looked up; when it carries none it is answered 400 "Missing
  parameter" (the spec's \<open>InvalidInput\<close>) before the user is looked up. (2) The call that
  clears the flag is made by \<open>startTrial\<close> only, for the requester, whose flag was true, and
  after the subscription record was written. (3) No request sets a flag that was false,
  and neither does any sequence of requests. (4) A flag that was true is false after a
  request only if the request was a \<open>startTrial\<close> that was answered 200. (5) After a
  \<open>startTrial\<close> that was answered 200 the requester's flag is false, and a \<open>startTrial\<close> of
  that user that reads the table then is refused as in (1).
\<close>

theorem trial_flag_cleared_once:
  "(\<forall>u. us (data_uid req) = Some u \<and> \<not> canTrial u \<longrightarrow>
      post_startTrial (reading us env) req =
        (if data_stripePlanSlug req = [] then (Inl Missing_parameter, [])
         else (Inl Already_used_trial, [Db_getUser (data_uid req)])))
   \<and> (\<forall>userId. Db_disableUserTrial userId \<in> set (calls (reading us env) r req) \<longrightarrow>
        r = Post_startTrial
        \<and> (\<exists>u e p s. us (data_uid req) = Some u \<and> canTrial u \<and> userId = user_id u
             \<and> createExplorerSubscription (db env) userId e p s = Inr ()
             \<and> Db_createExplorerSubscription userId e p s \<in> set (calls (reading us env) r req)))
   \<and> (\<forall>uid u'. serve env r req us uid = Some u' \<longrightarrow>
        (\<exists>u. us uid = Some u \<and> (canTrial u' \<longrightarrow> canTrial u)))
   \<and> (\<forall>rs uid u'. serve_all rs us uid = Some u' \<longrightarrow>
        (\<exists>u. us uid = Some u \<and> (canTrial u' \<longrightarrow> canTrial u)))
   \<and> (\<forall>uid u u'. us uid = Some u \<and> canTrial u \<and> serve env r req us uid = Some u' \<and> \<not> canTrial u' \<longrightarrow>
        r = Post_startTrial \<and> fst (post_startTrial (reading us env) req) = Inr ())
   \<and> (fst (post_startTrial (reading us env) req) = Inr () \<longrightarrow>
        (\<exists>u'. serve env Post_startTrial req us (data_uid req) = Some u' \<and> \<not> canTrial u')
        \<and> (\<forall>env' req'. data_uid req' = data_uid req \<longrightarrow>
              post_startTrial (reading (serve env Post_startTrial req us) env') req' =
                (if data_stripePlanSlug req' = [] then (Inl Missing_parameter, [])
                 else (Inl Already_used_trial, [Db_getUser (data_uid req')]))))"
proof (intro conjI allI impI)
  fix u
  assume "us (data_uid req) = Some u \<and> \<not> canTrial u"
  then show "post_startTrial (reading us env) req =
      (if data_stripePlanSlug req = [] then (Inl Missing_parameter, [])
       else (Inl Already_used_trial, [Db_getUser (data_uid req)]))"
    using startTrial_refused [where req = req and env = "reading us env" and u = u] by simp
next
  fix userId
  assume call: "Db_disableUserTrial userId \<in> set (calls (reading us env) r req)"
  then show r: "r = Post_startTrial"
    using flag_call_only_in_startTrial [of r userId "reading us env" req] by blast
  from call r have "Db_disableUserTrial userId \<in> set (snd (post_startTrial (reading us env) req))"
    by simp
  from flag_call_in_startTrial [OF this] r
  show "\<exists>u e p s. us (data_uid req) = Some u \<and> canTrial u \<and> userId = user_id u
      \<and> createExplorerSubscription (db env) userId e p s = Inr ()
      \<and> Db_createExplorerSubscription userId e p s \<in> set (calls (reading us env) r req)"
    by (auto simp add: reading_def)
next
  fix uid u'
  assume "serve env r req us uid = Some u'"
  then show "\<exists>u. us uid = Some u \<and> (canTrial u' \<longrightarrow> canTrial u)"
    by (rule serve_keeps)
next
  fix rs uid u'
  assume "serve_all rs us uid = Some u'"
  then show "\<exists>u. us uid = Some u \<and> (canTrial u' \<longrightarrow> canTrial u)"
    by (rule serve_all_keeps)
next
  fix uid u u'
  assume flipped: "us uid = Some u \<and> canTrial u \<and> serve env r req us uid = Some u' \<and> \<not> canTrial u'"
  from fold_written_keeps
    [where us = us and uid = uid and u = u and env = "reading us env"
      and cs = "calls (reading us env) r req"] flipped
  obtain userId where call: "Db_disableUserTrial userId \<in> set (calls (reading us env) r req)"
    and succeeded: "disableUserTrial (db env) userId = Inr ()"
    by (auto simp add: serve_def)
  from call show r: "r = Post_startTrial"
    using flag_call_only_in_startTrial [of r userId "reading us env" req] by blast
  from call r have "Db_disableUserTrial userId \<in> set (snd (post_startTrial (reading us env) req))"
    by simp
  from flag_call_in_startTrial [OF this] succeeded
  show "fst (post_startTrial (reading us env) req) = Inr ()" by auto
next
  assume success: "fst (post_startTrial (reading us env) req) = Inr ()"
  from startTrial_success [OF this] obtain u
    where u: "us (data_uid req) = Some u"
      and succeeded: "disableUserTrial (db env) (user_id u) = Inr ()"
      and call: "Db_disableUserTrial (user_id u) \<in> set (snd (post_startTrial (reading us env) req))"
    by auto
  from fold_written_flips
    [where userId = "user_id u" and cs = "snd (post_startTrial (reading us env) req)"
      and env = "reading us env" and us = us and uid = "data_uid req" and u = u]
    u succeeded call
  show flag: "\<exists>u'. serve env Post_startTrial req us (data_uid req) = Some u' \<and> \<not> canTrial u'"
    by (simp add: serve_def)
  fix env' and req' :: request
  assume same: "data_uid req' = data_uid req"
  from flag obtain u' where u': "serve env Post_startTrial req us (data_uid req) = Some u'"
    and "\<not> canTrial u'" by blast
  with same show "post_startTrial (reading (serve env Post_startTrial req us) env') req' =
      (if data_stripePlanSlug req' = [] then (Inl Missing_parameter, [])
       else (Inl Already_used_trial, [Db_getUser (data_uid req')]))"
    using startTrial_refused
      [where req = req' and env = "reading (serve env Post_startTrial req us) env'" and u = u']
    by simp
qed

text \<open>
  In the test double Alice may start a trial. Her request is answered 200; afterwards her
  flag is false, and her next request is refused after the user lookup.
\<close>

theorem trial_flag_cleared_once_witness:
  "fst (post_startTrial (reading only_alice test_env)
         (blank\<lparr>params_id := ''7'', data_stripePlanSlug := ''basic''\<rparr>)) = Inr ()
   \<and> (\<exists>u'. serve test_env Post_startTrial
             (blank\<lparr>params_id := ''7'', data_stripePlanSlug := ''basic''\<rparr>) only_alice ''alice'' = Some u'
          \<and> \<not> canTrial u')
   \<and> post_startTrial
       (reading
          (serve test_env Post_startTrial
             (blank\<lparr>params_id := ''7'', data_stripePlanSlug := ''basic''\<rparr>) only_alice)
          test_env)
       (blank\<lparr>params_id := ''7'', data_stripePlanSlug := ''legacy''\<rparr>) =
     (Inl Already_used_trial, [Db_getUser ''alice''])"
proof -
  have success: "fst (post_startTrial (reading only_alice test_env)
         (blank\<lparr>params_id := ''7'', data_stripePlanSlug := ''basic''\<rparr>)) = Inr ()"
    by (simp add: post_startTrial_def collab_defs test_defs io_defs reading_def only_alice_def)
  from success trial_flag_cleared_once
    [where req = "blank\<lparr>params_id := ''7'', data_stripePlanSlug := ''basic''\<rparr>"
      and us = only_alice and env = test_env and r = Post_startTrial]
  have "(\<exists>u'. serve test_env Post_startTrial
             (blank\<lparr>params_id := ''7'', data_stripePlanSlug := ''basic''\<rparr>) only_alice
             (data_uid (blank\<lparr>params_id := ''7'', data_stripePlanSlug := ''basic''\<rparr>)) = Some u'
          \<and> \<not> canTrial u')
     \<and> (\<forall>env' req'. data_uid req' = data_uid (blank\<lparr>params_id := ''7'', data_stripePlanSlug := ''basic''\<rparr>)
          \<longrightarrow>
          post_startTrial
            (reading
               (serve test_env Post_startTrial
                  (blank\<lparr>params_id := ''7'', data_stripePlanSlug := ''basic''\<rparr>) only_alice)
               env') req' =
            (if data_stripePlanSlug req' = [] then (Inl Missing_parameter, [])
             else (Inl Already_used_trial, [Db_getUser (data_uid req')])))"
    by blast
  then have flag: "\<exists>u'. serve test_env Post_startTrial
             (blank\<lparr>params_id := ''7'', data_stripePlanSlug := ''basic''\<rparr>) only_alice ''alice'' = Some u'
          \<and> \<not> canTrial u'"
    and again: "post_startTrial
       (reading
          (serve test_env Post_startTrial
             (blank\<lparr>params_id := ''7'', data_stripePlanSlug := ''basic''\<rparr>) only_alice)
          test_env)
       (blank\<lparr>params_id := ''7'', data_stripePlanSlug := ''legacy''\<rparr>) =
     (Inl Already_used_trial, [Db_getUser ''alice''])"
    by (simp_all add: blank_def)
  from success flag again show ?thesis by blast
qed

text \<open>
  The claim as it was stated fails on a request that carries no plan slug: Alice's flag is
  false, and her request is answered 400 "Missing parameter", not with the \<open>Forbidden\<close>
  message; the user is not even looked up.
\<close>

theorem startTrial_without_slug_counterexample:
  "getUser (db (reading alice_after_trial test_env)) ''alice'' = Inr (Some (alice\<lparr>canTrial := False\<rparr>))
   \<and> \<not> canTrial (alice\<lparr>canTrial := False\<rparr>)
   \<and> post_startTrial (reading alice_after_trial test_env) (blank\<lparr>params_id := ''7''\<rparr>) =
       (Inl Missing_parameter, [])"
  by (simp add: post_startTrial_def collab_defs test_defs io_defs reading_def alice_after_trial_def)

subsection \<open>Changing to a plan that is not public\<close>

text \<open>
  Claim C8, as amended. Let a plan slug be requested that does not resolve to a public plan
  (the plan lookup finds no plan, or one that is not public). Then the call is answered 400
  and only lookups are made: the billing provider is not called (no subscription is
  retrieved or updated) and no local record is written. The answer is "Can't find explorer."
  when the explorer or its subscription is missing and "Can't find plan." when the plan is
  the first thing missing (both the spec's \<open>NotFound\<close>), except that it is "Revert plan
  cancelation before choosing a new plan." (the spec's \<open>Conflict\<close>) when the subscription is
  pending cancelation on a plan with another slug: that test comes before the plan lookup.
\<close>

theorem change_to_unknown_plan:
  assumes "data_newStripePlanSlug req \<noteq> []"
    and "getExplorerById (db env) (user_id (data_user req)) (params_id req) False = Inr found"
    and "getStripePlan (db env) (data_newStripePlanSlug req) = Inr None
       \<or> (\<exists>p. getStripePlan (db env) (data_newStripePlanSlug req) = Inr (Some p) \<and> \<not> public p)"
  defines "lookup \<equiv> Db_getExplorerById (user_id (data_user req)) (params_id req) False"
    and "plan_lookup \<equiv> Db_getStripePlan (data_newStripePlanSlug req)"
  shows "put_subscription env req =
    (case found of
       None \<Rightarrow> (Inl Cant_find_explorer, [lookup])
     | Some e \<Rightarrow>
         (case stripeSubscription e of
            None \<Rightarrow> (Inl Cant_find_explorer, [lookup])
          | Some cur \<Rightarrow>
              if plan_slug (stripePlan cur) \<noteq> data_newStripePlanSlug req \<and> isPendingCancelation cur
              then (Inl Revert_plan_cancelation, [lookup])
              else (Inl Cant_find_plan, [lookup, plan_lookup])))"
  using assms
  by (auto simp add: put_subscription_def collab_defs io_defs split: option.splits)

text \<open>
  In the test double the slug \<open>enterprise\<close> resolves to no plan and \<open>legacy\<close> to a plan that
  is not public; the explorer is subscribed to the basic plan and no cancelation is pending.
\<close>

theorem change_to_unknown_plan_witness:
  "put_subscription (with_explorer (subscribed False basic_plan) test_env)
     (blank\<lparr>params_id := ''7'', data_newStripePlanSlug := ''enterprise''\<rparr>) =
     (Inl Cant_find_plan, [Db_getExplorerById 1 ''7'' False, Db_getStripePlan ''enterprise''])
   \<and> put_subscription (with_explorer (subscribed False basic_plan) test_env)
     (blank\<lparr>params_id := ''7'', data_newStripePlanSlug := ''legacy''\<rparr>) =
     (Inl Cant_find_plan, [Db_getExplorerById 1 ''7'' False, Db_getStripePlan ''legacy''])"
  using change_to_unknown_plan
    [of "blank\<lparr>params_id := ''7'', data_newStripePlanSlug := ''enterprise''\<rparr>"
      "with_explorer (subscribed False basic_plan) test_env" "Some (subscribed False basic_plan)"]
    change_to_unknown_plan
    [of "blank\<lparr>params_id := ''7'', data_newStripePlanSlug := ''legacy''\<rparr>"
      "with_explorer (subscribed False basic_plan) test_env" "Some (subscribed False basic_plan)"]
  by (simp add: test_defs)

text \<open>
  The claim as it was stated fails when the cancelation of the current subscription is
  pending: the slug \<open>enterprise\<close> resolves to no plan, and the call is answered 400 with the
  \<open>Conflict\<close> message, not with a \<open>NotFound\<close> one; the plan is not even looked up.
\<close>

theorem change_to_unknown_plan_while_pending_counterexample:
  "getStripePlan (db (with_explorer (subscribed True basic_plan) test_env)) ''enterprise'' = Inr None
   \<and> put_subscription (with_explorer (subscribed True basic_plan) test_env)
     (blank\<lparr>params_id := ''7'', data_newStripePlanSlug := ''enterprise''\<rparr>) =
     (Inl Revert_plan_cancelation, [Db_getExplorerById 1 ''7'' False])"
  by (simp add: put_subscription_def collab_defs test_defs io_defs)

subsection \<open>Creating an explorer: a failure after the creation\<close>

text \<open>
  Claim C9. Let a request create a workspace and its explorer and ask for a subscription to
  be started, billing being enabled and the requester not being eligible for the demo plan.
  The explorer and its workspace are created first, by one call of the persistence layer.
  When what follows fails (no plan was given; the customer has no payment method; the
  billing provider rejects the subscription), the handler answers 400, and the creation is
  not undone: no call follows the failure, and no run of the handler ever deletes an
  explorer.
\<close>

theorem create_not_rolled_back:
  assumes "data_workspaceId req = 0" and "data_rpcServer req \<noteq> []" and "data_name req \<noteq> []"
    and "getUser (db env) (data_uid req) = Inr (Some u)"
    and "fetchNetworkId env (data_rpcServer req) = Inr (Some n)" and "n \<noteq> 0"
    and "createExplorerWithWorkspace (db env) (user_id u)
           \<lparr>wd_name = data_name req, wd_networkId = n, wd_rpcServer = data_rpcServer req,
            wd_tracing = data_tracing req, wd_dataRetentionLimit = defaultDataRetentionLimit u\<rparr>
         = Inr (Some e)"
    and "isStripeEnabled env" and "\<not> canUseDemoPlan u" and "query_startSubscription req \<noteq> []"
  defines "created \<equiv>
      [Db_getUser (data_uid req), Provider_fetchNetworkId (data_rpcServer req),
       Db_createExplorerWithWorkspace (user_id u)
         \<lparr>wd_name = data_name req, wd_networkId = n, wd_rpcServer = data_rpcServer req,
          wd_tracing = data_tracing req, wd_dataRetentionLimit = defaultDataRetentionLimit u\<rparr>]"
  shows "(data_plan req = [] \<longrightarrow> post_explorers env req = (Inl Missing_plan_parameter, created))
       \<and> (\<forall>p c. data_plan req \<noteq> []
              \<and> getStripePlan (db env) (data_plan req) = Inr (Some p) \<and> public p
              \<and> \<not> cryptoPaymentEnabled u
              \<and> customers_retrieve (stripe env) (stripeCustomerId u) = Inr c
              \<and> default_source c = []
            \<longrightarrow> post_explorers env req =
                  (Inl No_payment_method,
                   created @ [Db_getStripePlan (data_plan req),
                              Stripe_customers_retrieve (stripeCustomerId u)]))
       \<and> (\<forall>p c err. data_plan req \<noteq> []
              \<and> getStripePlan (db env) (data_plan req) = Inr (Some p) \<and> public p
              \<and> \<not> cryptoPaymentEnabled u
              \<and> customers_retrieve (stripe env) (stripeCustomerId u) = Inr c
              \<and> default_source c \<noteq> []
              \<and> subscriptions_create (stripe env)
                   \<lparr>customer = stripeCustomerId u, price = stripePriceId p,
                    trial_period_days = None, missing_payment_method = None,
                    collection_method = None, days_until_due = None,
                    metadata_explorerId = explorer_id e\<rparr> = Inl err
            \<longrightarrow> post_explorers env req =
                  (Inl err,
                   created @ [Db_getStripePlan (data_plan req),
                              Stripe_customers_retrieve (stripeCustomerId u),
                              Stripe_subscriptions_create
                                \<lparr>customer = stripeCustomerId u, price = stripePriceId p,
                                 trial_period_days = None, missing_payment_method = None,
                                 collection_method = None, days_until_due = None,
                                 metadata_explorerId = explorer_id e\<rparr>]))
       \<and> (\<forall>userId i. Db_deleteExplorer userId i \<notin> set (snd (post_explorers env req)))"
proof (intro conjI allI impI)
  show "Db_deleteExplorer userId i \<notin> set (snd (post_explorers env req))" for userId i
    unfolding post_explorers_def collab_defs
    by (auto dest!: in_calls_await split: option.splits if_splits)
qed (use assms in \<open>simp_all add: post_explorers_def collab_defs io_defs\<close>)

text \<open>
  In the test double Alice asks for a new workspace and a subscription, first without a
  plan, then with the basic plan and no payment method on her account.
\<close>

theorem create_not_rolled_back_witness:
  "post_explorers test_env
     (blank\<lparr>data_rpcServer := ''https://z'', data_name := ''other'', query_startSubscription := ''true''\<rparr>)
   = (Inl Missing_plan_parameter,
      [Db_getUser ''alice'', Provider_fetchNetworkId ''https://z'',
       Db_createExplorerWithWorkspace 1
         \<lparr>wd_name = ''other'', wd_networkId = 1, wd_rpcServer = ''https://z'', wd_tracing = [],
          wd_dataRetentionLimit = 7\<rparr>])
   \<and> post_explorers (with_customer \<lparr>customer_id = ''cus_1'', default_source = []\<rparr> test_env)
     (blank\<lparr>data_rpcServer := ''https://z'', data_name := ''other'', data_plan := ''basic'',
        query_startSubscription := ''true''\<rparr>)
   = (Inl No_payment_method,
      [Db_getUser ''alice'', Provider_fetchNetworkId ''https://z'',
       Db_createExplorerWithWorkspace 1
         \<lparr>wd_name = ''other'', wd_networkId = 1, wd_rpcServer = ''https://z'', wd_tracing = [],
          wd_dataRetentionLimit = 7\<rparr>,
       Db_getStripePlan ''basic'', Stripe_customers_retrieve ''cus_1''])"
  using create_not_rolled_back
    [of "blank\<lparr>data_rpcServer := ''https://z'', data_name := ''other'',
           query_startSubscription := ''true''\<rparr>"
      test_env alice 1 explorer_8]
    create_not_rolled_back
    [of "blank\<lparr>data_rpcServer := ''https://z'', data_name := ''other'', data_plan := ''basic'',
           query_startSubscription := ''true''\<rparr>"
      "with_customer \<lparr>customer_id = ''cus_1'', default_source = []\<rparr> test_env" alice 1 explorer_8]
  by (simp add: test_defs)

subsection \<open>Creating an explorer: the RPC probe\<close>

text \<open>
  Claim C10. The two ways of creating an explorer read the RPC probe differently. When a
  workspace is created with the explorer, a probe that is rejected (or timed out) and a
  probe that resolves to a falsy network id (\<open>null\<close> or 0) both end the request with 400
  "Our servers can't query this rpc, ...": nothing is created. When the explorer is attached
  to a workspace, only a rejected probe does; whatever the probe resolves to, a falsy network
  id included, the explorer is created and, nothing else failing, the request is answered
  200 with it.
\<close>

theorem probe_asymmetry:
  "(data_workspaceId req = 0 \<and> data_rpcServer req \<noteq> [] \<and> data_name req \<noteq> []
      \<and> getUser (db env) (data_uid req) = Inr requester
      \<and> ((\<exists>err. fetchNetworkId env (data_rpcServer req) = Inl err)
         \<or> (\<exists>n. fetchNetworkId env (data_rpcServer req) = Inr n \<and> \<not> truthy n))
    \<longrightarrow> post_explorers env req =
          (Inl Cant_query_rpc,
           [Db_getUser (data_uid req), Provider_fetchNetworkId (data_rpcServer req)]))
   \<and> (data_workspaceId req \<noteq> 0
      \<and> getUser (db env) (data_uid req) = Inr (Some u)
      \<and> getWorkspaceById (db env) (data_workspaceId req) = Inr (Some ws)
      \<and> workspace_explorer ws = None
    \<longrightarrow> (\<forall>err. fetchNetworkId env (rpcServer ws) = Inl err \<longrightarrow>
            post_explorers env req =
              (Inl Cant_query_rpc,
               [Db_getUser (data_uid req), Db_getWorkspaceById (data_workspaceId req),
                Provider_fetchNetworkId (rpcServer ws)]))
        \<and> (\<forall>n. fetchNetworkId env (rpcServer ws) = Inr n \<longrightarrow>
            prefix
              [Db_getUser (data_uid req), Db_getWorkspaceById (data_workspaceId req),
               Provider_fetchNetworkId (rpcServer ws),
               Db_createExplorerFromWorkspace (user_id u) (workspace_id ws)]
              (snd (post_explorers env req))
            \<and> (\<forall>e. createExplorerFromWorkspace (db env) (user_id u) (workspace_id ws) = Inr (Some e)
                  \<and> isStripeEnabled env \<and> \<not> canUseDemoPlan u \<and> query_startSubscription req = []
                \<longrightarrow> post_explorers env req =
                      (Inr e,
                       [Db_getUser (data_uid req), Db_getWorkspaceById (data_workspaceId req),
                        Provider_fetchNetworkId (rpcServer ws),
                        Db_createExplorerFromWorkspace (user_id u) (workspace_id ws)]))))"
proof (intro conjI allI impI)
  assume fresh: "data_workspaceId req = 0 \<and> data_rpcServer req \<noteq> [] \<and> data_name req \<noteq> []
      \<and> getUser (db env) (data_uid req) = Inr requester
      \<and> ((\<exists>err. fetchNetworkId env (data_rpcServer req) = Inl err)
         \<or> (\<exists>n. fetchNetworkId env (data_rpcServer req) = Inr n \<and> \<not> truthy n))"
  then consider
    (rejected) err where "fetchNetworkId env (data_rpcServer req) = Inl err"
    | (null) "fetchNetworkId env (data_rpcServer req) = Inr None"
    | (zero) "fetchNetworkId env (data_rpcServer req) = Inr (Some 0)"
    by (auto simp add: not_truthy)
  then show "post_explorers env req =
      (Inl Cant_query_rpc, [Db_getUser (data_uid req), Provider_fetchNetworkId (data_rpcServer req)])"
  proof cases
    case rejected
    with fresh show ?thesis by (simp add: post_explorers_def collab_defs io_defs)
  next
    case null
    with fresh show ?thesis by (simp add: post_explorers_def collab_defs io_defs)
  next
    case zero
    with fresh show ?thesis by (simp add: post_explorers_def collab_defs io_defs)
  qed
next
  fix err
  assume "data_workspaceId req \<noteq> 0
      \<and> getUser (db env) (data_uid req) = Inr (Some u)
      \<and> getWorkspaceById (db env) (data_workspaceId req) = Inr (Some ws)
      \<and> workspace_explorer ws = None"
    and "fetchNetworkId env (rpcServer ws) = Inl err"
  then show "post_explorers env req =
      (Inl Cant_query_rpc,
       [Db_getUser (data_uid req), Db_getWorkspaceById (data_workspaceId req),
        Provider_fetchNetworkId (rpcServer ws)])"
    by (simp add: post_explorers_def collab_defs io_defs)
next
  fix n
  assume attach: "data_workspaceId req \<noteq> 0
      \<and> getUser (db env) (data_uid req) = Inr (Some u)
      \<and> getWorkspaceById (db env) (data_workspaceId req) = Inr (Some ws)
      \<and> workspace_explorer ws = None"
    and probe: "fetchNetworkId env (rpcServer ws) = Inr n"
  from attach probe show "prefix
      [Db_getUser (data_uid req), Db_getWorkspaceById (data_workspaceId req),
       Provider_fetchNetworkId (rpcServer ws),
       Db_createExplorerFromWorkspace (user_id u) (workspace_id ws)]
      (snd (post_explorers env req))"
    by (simp add: post_explorers_def collab_defs snd_await fst_await)
  fix e
  assume "createExplorerFromWorkspace (db env) (user_id u) (workspace_id ws) = Inr (Some e)
      \<and> isStripeEnabled env \<and> \<not> canUseDemoPlan u \<and> query_startSubscription req = []"
  with attach probe show "post_explorers env req =
      (Inr e,
       [Db_getUser (data_uid req), Db_getWorkspaceById (data_workspaceId req),
        Provider_fetchNetworkId (rpcServer ws),
        Db_createExplorerFromWorkspace (user_id u) (workspace_id ws)])"
    by (simp add: post_explorers_def collab_defs io_defs)
qed

text \<open>
  In this variation of the test double every probe resolves to \<open>null\<close>. A new workspace is
  refused; the explorer of the existing workspace 5 is created.
\<close>

theorem probe_asymmetry_witness:
  "post_explorers (with_fetchNetworkId (Inr None) test_env)
     (blank\<lparr>data_rpcServer := ''https://x'', data_name := ''main''\<rparr>) =
     (Inl Cant_query_rpc, [Db_getUser ''alice'', Provider_fetchNetworkId ''https://x''])
   \<and> post_explorers (with_fetchNetworkId (Inr None) test_env) (blank\<lparr>data_workspaceId := 5\<rparr>) =
     (Inr explorer_8,
      [Db_getUser ''alice'', Db_getWorkspaceById 5, Provider_fetchNetworkId ''https://x'',
       Db_createExplorerFromWorkspace 1 5])"
  using probe_asymmetry
    [of "blank\<lparr>data_rpcServer := ''https://x'', data_name := ''main''\<rparr>"
      "with_fetchNetworkId (Inr None) test_env" "Some alice"]
    probe_asymmetry
    [of "blank\<lparr>data_workspaceId := 5\<rparr>" "with_fetchNetworkId (Inr None) test_env" _ alice
      free_workspace]
  by (simp add: test_defs truthy_def)

end
